theory Spec2Isabelle
  imports Complex_Main "HOL-Library.Multiset"
begin

section \<open>The FoodSwing backend (server.js) as a state-passing model\<close>

text \<open>
  The server is an Express application over three Mongoose collections.  Each route
  handler becomes a function from the request and the collections to the response and
  the collections afterwards.  What a handler reads from outside (the clock, a fresh
  ObjectId, the random bcrypt salt) is an explicit argument.  The three libraries the
  handlers call are modelled at the level of their documented contract:
  \<^item> \<open>bcryptjs\<close>: the digest and the comparison of two strings are parameters; a hash is
    the modular-crypt string that starts with \<open>$\<close>; \<open>hash\<close> and \<open>compare\<close> refuse a
    value that is not a string;
  \<^item> \<open>jsonwebtoken\<close>: a token is the serialisation of a payload and of its signature; the
    serialisation, its parser and the keyed signature are parameters, the computation of
    \<open>iat\<close> and \<open>exp\<close> and the order of the checks of \<open>verify\<close> are written out;
  \<^item> \<open>mongoose\<close>: a collection is the list of its documents in insertion order, \<open>save\<close>
    runs the schema's casts, its \<open>required\<close> validators and the unique index, \<open>find\<close>,
    \<open>sort\<close> and \<open>limit\<close> are the list operations; what the library does with a value
    that is not a string, in a String path or in a filter, is a parameter.
  A field of a JSON request body is any JavaScript value that \<open>express.json()\<close> can
  produce, or \<open>undefined\<close> for a field the body does not have.  A failure of the
  connection to the document store is not part of the model.
\<close>

subsection \<open>Documents and collections\<close>

type_synonym object_id = nat
type_synonym millis = int

text \<open>userSchema (lines 28-33).\<close>

record user =
  user_id :: object_id
  user_name :: string
  user_email :: string
  user_password :: string
  user_createdAt :: millis

text \<open>contactSchema (lines 38-43).\<close>

record contact =
  contact_name :: string
  contact_email :: string
  contact_message :: string
  contact_createdAt :: millis

text \<open>moodSelectionSchema (lines 48-52).\<close>

record mood_selection =
  mood_userId :: object_id
  mood_mood :: string
  mood_timestamp :: millis

record db =
  users :: "user list"
  contacts :: "contact list"
  moods :: "mood_selection list"

subsection \<open>Requests and responses\<close>

text \<open>
  The values of the fields of \<open>req.body\<close>.  A number is the real it denotes (the
  infinities that an overlong literal parses to behave as any other non-zero number here).
\<close>

datatype jsval =
    Undefined
  | Null
  | Bool bool
  | Num real
  | Str string
  | Arr "jsval list"
  | Obj "(string \<times> jsval) list"

record req_body =
  body_name :: jsval
  body_email :: jsval
  body_password :: jsval
  body_message :: jsval
  body_mood :: jsval

record request =
  authorization :: "string option"
  body :: req_body

text \<open>The claims of a session token: what \<open>jwt.sign\<close> puts into the payload.\<close>

record jwt_payload =
  claim_id :: object_id
  claim_email :: string
  claim_name :: string
  iat :: int
  exp :: int

text \<open>The \<open>user\<close> object of the signup and login responses.\<close>

record user_view =
  view_id :: object_id
  view_name :: string
  view_email :: string

text \<open>
  The JSON bodies the handlers send.  \<open>Message ok m\<close> is \<open>{success: ok, message: m}\<close>;
  the other bodies all carry \<open>success: true\<close>: \<open>Session m token user\<close> is
  \<open>{success, message, token, user}\<close>, \<open>Verified u\<close> is \<open>{success, user}\<close>, \<open>History h\<close> is
  \<open>{success, history}\<close> and \<open>Contacts cs\<close> is \<open>{success, contacts}\<close>.
\<close>

datatype json_body =
    Message bool string
  | Session string string user_view
  | Verified jwt_payload
  | History "mood_selection list"
  | Contacts "contact list"

record response =
  status :: nat
  json :: json_body

subsection \<open>The libraries\<close>

record jws =
  payload :: jwt_payload
  signature :: string

record jwt_lib =
  encode :: "jws \<Rightarrow> string"
  decode :: "string \<Rightarrow> jws option"
  hmac :: "string \<Rightarrow> jwt_payload \<Rightarrow> string"

record bcrypt_lib =
  crypt :: "string \<Rightarrow> nat \<Rightarrow> string \<Rightarrow> string"
  compare :: "string \<Rightarrow> string \<Rightarrow> bool"

datatype jwt_error = JsonWebTokenError | TokenExpiredError

datatype bcrypt_error = IllegalArguments

datatype store_error = ValidationError | DuplicateKey | CastError

text \<open>
  \<open>cast_other v\<close> is the string that the cast of a String path makes of a value \<open>v\<close> that
  is not a string, or \<open>None\<close> when the cast fails.  \<open>filter_other v\<close> is the condition on
  the email of a document that the filter \<open>{email: v}\<close> stands for when \<open>v\<close> is not a
  string (a value that is cast, or an object of query operators), or \<open>None\<close> when the
  library refuses the filter.
\<close>

record mongoose_lib =
  cast_other :: "jsval \<Rightarrow> string option"
  filter_other :: "jsval \<Rightarrow> (string \<Rightarrow> bool) option"

record config =
  jwt :: jwt_lib
  bcrypt :: bcrypt_lib
  mongoose :: mongoose_lib
  env_JWT_SECRET :: "string option"

text \<open>What one request reads from outside the process.\<close>

record env =
  fresh_id :: object_id
  salt :: string
  now_doc :: millis
  now_jwt :: millis

text \<open>JavaScript truthiness of an optional string: \<open>undefined\<close> and \<open>""\<close> are falsy.\<close>

definition truthy :: "string option \<Rightarrow> bool" where
  "truthy v = (case v of None \<Rightarrow> False | Some s \<Rightarrow> s \<noteq> [])"

text \<open>The string of an optional string, read after the guard that it is truthy.\<close>

definition str :: "string option \<Rightarrow> string" where
  "str v = (case v of None \<Rightarrow> [] | Some s \<Rightarrow> s)"

text \<open>
  JavaScript truthiness of a value: \<open>undefined\<close>, \<open>null\<close>, \<open>false\<close>, zero and \<open>""\<close> are
  falsy, every array and every object is truthy.
\<close>

fun js_truthy :: "jsval \<Rightarrow> bool" where
  "js_truthy Undefined = False"
| "js_truthy Null = False"
| "js_truthy (Bool b) = b"
| "js_truthy (Num x) = (x \<noteq> 0)"
| "js_truthy (Str s) = (s \<noteq> [])"
| "js_truthy (Arr xs) = True"
| "js_truthy (Obj kvs) = True"

text \<open>Line 10: \<open>process.env.JWT_SECRET || 'your-secret-key-change-in-production'\<close>.\<close>

definition JWT_SECRET :: "config \<Rightarrow> string" where
  "JWT_SECRET c =
     (if truthy (env_JWT_SECRET c) then str (env_JWT_SECRET c)
      else ''your-secret-key-change-in-production'')"

text \<open>The hash of a string at a cost, with the salt that was drawn.\<close>

definition bcrypt_hash :: "bcrypt_lib \<Rightarrow> string \<Rightarrow> nat \<Rightarrow> string \<Rightarrow> string" where
  "bcrypt_hash B s rounds slt = CHR ''$'' # crypt B s rounds slt"

text \<open>
  \<open>await bcrypt.hash(v, rounds)\<close> and \<open>await bcrypt.compare(v, hash)\<close> on the value the
  handler passes: the library rejects, with an \<open>Illegal arguments\<close> error, when \<open>v\<close> is not
  a string.
\<close>

definition bcrypt_hash_value :: "bcrypt_lib \<Rightarrow> jsval \<Rightarrow> nat \<Rightarrow> string \<Rightarrow> bcrypt_error + string" where
  "bcrypt_hash_value B v rounds slt =
     (case v of Str s \<Rightarrow> Inr (bcrypt_hash B s rounds slt) | _ \<Rightarrow> Inl IllegalArguments)"

definition bcrypt_compare_value :: "bcrypt_lib \<Rightarrow> jsval \<Rightarrow> string \<Rightarrow> bcrypt_error + bool" where
  "bcrypt_compare_value B v h =
     (case v of Str s \<Rightarrow> Inr (compare B s h) | _ \<Rightarrow> Inl IllegalArguments)"

text \<open>
  \<open>jwt.sign(claims, secret, {expiresIn})\<close> at clock \<open>now\<close> (milliseconds): the payload is
  the claims with \<open>iat\<close>, the clock in whole seconds, and \<open>exp\<close>, which is \<open>iat\<close> plus the
  lifetime in seconds; the token is the serialisation of the payload with its signature
  under the secret.
\<close>

definition jwt_claims :: "object_id \<times> string \<times> string \<Rightarrow> int \<Rightarrow> millis \<Rightarrow> jwt_payload" where
  "jwt_claims claims expiresIn now =
     (case claims of (i, em, n) \<Rightarrow>
        let t = now div 1000
        in \<lparr>claim_id = i, claim_email = em, claim_name = n, iat = t, exp = t + expiresIn\<rparr>)"

definition jwt_signed :: "jwt_lib \<Rightarrow> object_id \<times> string \<times> string \<Rightarrow> string \<Rightarrow> int \<Rightarrow> millis \<Rightarrow> jws" where
  "jwt_signed L claims secret expiresIn now =
     (let p = jwt_claims claims expiresIn now
      in \<lparr>payload = p, signature = hmac L secret p\<rparr>)"

definition jwt_sign :: "jwt_lib \<Rightarrow> object_id \<times> string \<times> string \<Rightarrow> string \<Rightarrow> int \<Rightarrow> millis \<Rightarrow> string" where
  "jwt_sign L claims secret expiresIn now = encode L (jwt_signed L claims secret expiresIn now)"

text \<open>
  \<open>jwt.verify(token, secret)\<close> at clock \<open>now\<close>: a token that does not parse or whose
  signature is not the one of its payload is a JsonWebTokenError; then a token whose
  \<open>exp\<close> is not after the clock (in whole seconds) is a TokenExpiredError.
\<close>

definition jwt_verify :: "jwt_lib \<Rightarrow> string \<Rightarrow> string \<Rightarrow> millis \<Rightarrow> jwt_error + jwt_payload" where
  "jwt_verify L token secret now =
     (case decode L token of
        None \<Rightarrow> Inl JsonWebTokenError
      | Some t \<Rightarrow>
          if signature t \<noteq> hmac L secret (payload t) then Inl JsonWebTokenError
          else if now div 1000 \<ge> exp (payload t) then Inl TokenExpiredError
          else Inr (payload t))"

text \<open>The lifetime \<open>'7d'\<close> in seconds.\<close>

definition seven_days :: int where
  "seven_days = 7 * 24 * 60 * 60"

text \<open>
  The token of a user: the call \<open>jwt.sign({id, email, name}, JWT_SECRET, {expiresIn: '7d'})\<close>
  of the signup handler (lines 111-115) and of the login handler (lines 168-172).
\<close>

definition issueToken :: "config \<Rightarrow> millis \<Rightarrow> user \<Rightarrow> string" where
  "issueToken c now u =
     jwt_sign (jwt c) (user_id u, user_email u, user_name u) (JWT_SECRET c) seven_days now"

text \<open>\<open>jwt.verify(token, JWT_SECRET, ...)\<close> of the middleware (line 65).\<close>

definition verifyToken :: "config \<Rightarrow> millis \<Rightarrow> string \<Rightarrow> jwt_error + jwt_payload" where
  "verifyToken c now token = jwt_verify (jwt c) token (JWT_SECRET c) now"

text \<open>\<open>User.findOne({ email })\<close> for a string: the first user with exactly this email.\<close>

definition findOne_email :: "string \<Rightarrow> user list \<Rightarrow> user option" where
  "findOne_email em us = find (\<lambda>u. user_email u = em) us"

text \<open>\<open>await User.findOne({ email })\<close> on the value the handler passes.\<close>

definition User_findOne :: "mongoose_lib \<Rightarrow> jsval \<Rightarrow> user list \<Rightarrow> store_error + user option" where
  "User_findOne M email us =
     (case email of
        Str em \<Rightarrow> Inr (findOne_email em us)
      | _ \<Rightarrow>
          (case filter_other M email of
             None \<Rightarrow> Inl CastError
           | Some matches \<Rightarrow> Inr (find (\<lambda>u. matches (user_email u)) us)))"

text \<open>
  The value of a String path of a new document: \<open>None\<close> when the path stays without a
  value (\<open>undefined\<close>, \<open>null\<close>) or the value cannot be cast; \<open>save\<close> then rejects with a
  validation error.
\<close>

definition cast_String :: "mongoose_lib \<Rightarrow> jsval \<Rightarrow> string option" where
  "cast_String M v =
     (case v of
        Undefined \<Rightarrow> None
      | Null \<Rightarrow> None
      | Str s \<Rightarrow> Some s
      | _ \<Rightarrow> cast_other M v)"

text \<open>\<open>new User({name, email, password: hashedPassword})\<close> with the drawn id and the clock.\<close>

definition new_User :: "mongoose_lib \<Rightarrow> env \<Rightarrow> jsval \<Rightarrow> jsval \<Rightarrow> string \<Rightarrow> user option" where
  "new_User M e name email hashedPassword =
     (case (cast_String M name, cast_String M email) of
        (Some n, Some em) \<Rightarrow>
          Some \<lparr>user_id = fresh_id e, user_name = n, user_email = em,
                user_password = hashedPassword, user_createdAt = now_doc e\<rparr>
      | _ \<Rightarrow> None)"

text \<open>\<open>new Contact({name, email, message})\<close> with the clock.\<close>

definition new_Contact :: "mongoose_lib \<Rightarrow> env \<Rightarrow> jsval \<Rightarrow> jsval \<Rightarrow> jsval \<Rightarrow> contact option" where
  "new_Contact M e name email message =
     (case (cast_String M name, cast_String M email, cast_String M message) of
        (Some n, Some em, Some msg) \<Rightarrow>
          Some \<lparr>contact_name = n, contact_email = em, contact_message = msg,
                contact_createdAt = now_doc e\<rparr>
      | _ \<Rightarrow> None)"

text \<open>
  \<open>user.save()\<close>: the three \<open>required\<close> string paths must be non-empty, and the unique
  index on \<open>email\<close> refuses a second document with the same email.
\<close>

definition user_save :: "user \<Rightarrow> db \<Rightarrow> store_error + db" where
  "user_save u d =
     (if user_name u = [] \<or> user_email u = [] \<or> user_password u = [] then Inl ValidationError
      else if user_email u \<in> set (map user_email (users d)) then Inl DuplicateKey
      else Inr (d\<lparr>users := users d @ [u]\<rparr>))"

text \<open>\<open>contact.save()\<close>: three \<open>required\<close> string paths.\<close>

definition contact_save :: "contact \<Rightarrow> db \<Rightarrow> store_error + db" where
  "contact_save k d =
     (if contact_name k = [] \<or> contact_email k = [] \<or> contact_message k = []
      then Inl ValidationError
      else Inr (d\<lparr>contacts := contacts d @ [k]\<rparr>))"

text \<open>
  \<open>new MoodSelection({userId, mood}).save()\<close>: \<open>mood\<close> is \<open>required\<close>, so a document
  without it, with a value that cannot be cast or with the empty string fails validation;
  \<open>timestamp\<close> defaults to the clock.
\<close>

definition mood_save :: "mongoose_lib \<Rightarrow> object_id \<Rightarrow> jsval \<Rightarrow> millis \<Rightarrow> db \<Rightarrow> store_error + db" where
  "mood_save M uid mood ts d =
     (case cast_String M mood of
        None \<Rightarrow> Inl ValidationError
      | Some m \<Rightarrow>
          if m = [] then Inl ValidationError
          else Inr (d\<lparr>moods := moods d @
                 [\<lparr>mood_userId = uid, mood_mood = m, mood_timestamp = ts\<rparr>]\<rparr>))"

text \<open>
  \<open>.sort({field: -1})\<close>: descending by a date field.  Documents with equal dates stay in
  insertion order here; the store promises no order among them.
\<close>

definition sort_desc :: "('a \<Rightarrow> millis) \<Rightarrow> 'a list \<Rightarrow> 'a list" where
  "sort_desc f xs = sort_key (\<lambda>x. - f x) xs"

text \<open>\<open>s.split(' ')\<close> of JavaScript, for any separator character.\<close>

fun split :: "char \<Rightarrow> string \<Rightarrow> string list" where
  "split c [] = [[]]"
| "split c (x # xs) =
     (if x = c then [] # split c xs
      else (case split c xs of
              [] \<Rightarrow> [[x]]
            | w # ws \<Rightarrow> (x # w) # ws))"

text \<open>\<open>a[i]\<close> of a JavaScript array: \<open>undefined\<close> out of range.\<close>

definition element :: "'a list \<Rightarrow> nat \<Rightarrow> 'a option" where
  "element xs i = (if i < length xs then Some (xs ! i) else None)"

subsection \<open>The session middleware (lines 57-72)\<close>

datatype middleware_result = Respond response | Next jwt_payload

text \<open>\<open>authHeader && authHeader.split(' ')[1]\<close>.\<close>

definition bearer_token :: "string option \<Rightarrow> string option" where
  "bearer_token authHeader =
     (if truthy authHeader then element (split CHR '' '' (str authHeader)) 1 else authHeader)"

definition authenticateToken :: "config \<Rightarrow> millis \<Rightarrow> request \<Rightarrow> middleware_result" where
  "authenticateToken c now req =
     (let token = bearer_token (authorization req) in
      if \<not> truthy token then
        Respond \<lparr>status = 401, json = Message False ''Access token required''\<rparr>
      else
        (case verifyToken c now (str token) of
           Inl err \<Rightarrow> Respond \<lparr>status = 403, json = Message False ''Invalid or expired token''\<rparr>
         | Inr u \<Rightarrow> Next u))"

subsection \<open>The handlers\<close>

text \<open>
  The two emoji of the messages (U+1F389 and U+1F4E7) as their UTF-8 bytes, and the
  message of the contact route, whose apostrophe is the character 0x27.
\<close>

definition party :: string where
  "party = [CHR 0xF0, CHR 0x9F, CHR 0x8E, CHR 0x89]"

definition envelope :: string where
  "envelope = [CHR 0xF0, CHR 0x9F, CHR 0x93, CHR 0xA7]"

definition thanks :: string where
  "thanks = ''Thank you for your message! We'' @ [CHR 0x27] @ ''ll get back to you soon. '' @ envelope"

definition view_of :: "user \<Rightarrow> user_view" where
  "view_of u = \<lparr>view_id = user_id u, view_name = user_name u, view_email = user_email u\<rparr>"

text \<open>POST /api/auth/signup (lines 77-134).\<close>

definition signup :: "config \<Rightarrow> env \<Rightarrow> request \<Rightarrow> db \<Rightarrow> response \<times> db" where
  "signup c e req d =
     (let name = body_name (body req);
          email = body_email (body req);
          password = body_password (body req) in
      if \<not> js_truthy name \<or> \<not> js_truthy email \<or> \<not> js_truthy password then
        (\<lparr>status = 400, json = Message False ''Please provide all required fields''\<rparr>, d)
      else
        (case User_findOne (mongoose c) email (users d) of
           Inl err \<Rightarrow>
             (\<lparr>status = 500, json = Message False ''Server error. Please try again.''\<rparr>, d)
         | Inr (Some existingUser) \<Rightarrow>
             (\<lparr>status = 400, json = Message False ''Email already registered''\<rparr>, d)
         | Inr None \<Rightarrow>
             (case bcrypt_hash_value (bcrypt c) password 10 (salt e) of
                Inl err \<Rightarrow>
                  (\<lparr>status = 500, json = Message False ''Server error. Please try again.''\<rparr>, d)
              | Inr hashedPassword \<Rightarrow>
                  (case new_User (mongoose c) e name email hashedPassword of
                     None \<Rightarrow>
                       (\<lparr>status = 500,
                         json = Message False ''Server error. Please try again.''\<rparr>, d)
                   | Some u \<Rightarrow>
                       (case user_save u d of
                          Inl err \<Rightarrow>
                            (\<lparr>status = 500,
                              json = Message False ''Server error. Please try again.''\<rparr>, d)
                        | Inr d' \<Rightarrow>
                            (\<lparr>status = 201,
                              json = Session (''Account created successfully! '' @ party)
                                       (issueToken c (now_jwt e) u) (view_of u)\<rparr>, d'))))))"

text \<open>POST /api/auth/login (lines 137-191).\<close>

definition login :: "config \<Rightarrow> env \<Rightarrow> request \<Rightarrow> db \<Rightarrow> response \<times> db" where
  "login c e req d =
     (let email = body_email (body req);
          password = body_password (body req) in
      if \<not> js_truthy email \<or> \<not> js_truthy password then
        (\<lparr>status = 400, json = Message False ''Please provide email and password''\<rparr>, d)
      else
        (case User_findOne (mongoose c) email (users d) of
           Inl err \<Rightarrow>
             (\<lparr>status = 500, json = Message False ''Server error. Please try again.''\<rparr>, d)
         | Inr None \<Rightarrow>
             (\<lparr>status = 400, json = Message False ''Invalid email or password''\<rparr>, d)
         | Inr (Some u) \<Rightarrow>
             (case bcrypt_compare_value (bcrypt c) password (user_password u) of
                Inl err \<Rightarrow>
                  (\<lparr>status = 500, json = Message False ''Server error. Please try again.''\<rparr>, d)
              | Inr isPasswordValid \<Rightarrow>
                  if \<not> isPasswordValid then
                    (\<lparr>status = 400, json = Message False ''Invalid email or password''\<rparr>, d)
                  else
                    (\<lparr>status = 200,
                      json = Session (''Welcome back! '' @ party)
                               (issueToken c (now_jwt e) u) (view_of u)\<rparr>, d))))"

text \<open>A protected route: the middleware, then the handler with \<open>req.user\<close>.\<close>

definition protected ::
  "config \<Rightarrow> env \<Rightarrow> request \<Rightarrow> db \<Rightarrow> (jwt_payload \<Rightarrow> response \<times> db) \<Rightarrow> response \<times> db" where
  "protected c e req d handler =
     (case authenticateToken c (now_jwt e) req of
        Respond r \<Rightarrow> (r, d)
      | Next u \<Rightarrow> handler u)"

text \<open>GET /api/auth/verify (lines 194-199).\<close>

definition verify_route :: "config \<Rightarrow> env \<Rightarrow> request \<Rightarrow> db \<Rightarrow> response \<times> db" where
  "verify_route c e req d =
     protected c e req d (\<lambda>u. (\<lparr>status = 200, json = Verified u\<rparr>, d))"

text \<open>POST /api/mood/select (lines 204-226).\<close>

definition mood_select :: "config \<Rightarrow> env \<Rightarrow> request \<Rightarrow> db \<Rightarrow> response \<times> db" where
  "mood_select c e req d =
     protected c e req d (\<lambda>u.
       let mood = body_mood (body req) in
       case mood_save (mongoose c) (claim_id u) mood (now_doc e) d of
         Inl err \<Rightarrow> (\<lparr>status = 500, json = Message False ''Failed to track mood''\<rparr>, d)
       | Inr d' \<Rightarrow> (\<lparr>status = 200, json = Message True ''Mood tracked successfully''\<rparr>, d'))"

text \<open>GET /api/mood/history (lines 229-246).\<close>

definition mood_history :: "config \<Rightarrow> env \<Rightarrow> request \<Rightarrow> db \<Rightarrow> response \<times> db" where
  "mood_history c e req d =
     protected c e req d (\<lambda>u.
       let moodHistory =
             take 50 (sort_desc mood_timestamp
                        (filter (\<lambda>m. mood_userId m = claim_id u) (moods d)))
       in (\<lparr>status = 200, json = History moodHistory\<rparr>, d))"

text \<open>POST /api/contact (lines 250-282).\<close>

definition contact_route :: "config \<Rightarrow> env \<Rightarrow> request \<Rightarrow> db \<Rightarrow> response \<times> db" where
  "contact_route c e req d =
     (let name = body_name (body req);
          email = body_email (body req);
          message = body_message (body req) in
      if \<not> js_truthy name \<or> \<not> js_truthy email \<or> \<not> js_truthy message then
        (\<lparr>status = 400, json = Message False ''Please provide all fields''\<rparr>, d)
      else
        (case new_Contact (mongoose c) e name email message of
           None \<Rightarrow>
             (\<lparr>status = 500,
               json = Message False ''Failed to send message. Please try again.''\<rparr>, d)
         | Some k \<Rightarrow>
             (case contact_save k d of
                Inl err \<Rightarrow>
                  (\<lparr>status = 500,
                    json = Message False ''Failed to send message. Please try again.''\<rparr>, d)
              | Inr d' \<Rightarrow> (\<lparr>status = 200, json = Message True thanks\<rparr>, d'))))"

text \<open>GET /api/admin/contacts (lines 311-327).\<close>

definition admin_contacts :: "config \<Rightarrow> env \<Rightarrow> request \<Rightarrow> db \<Rightarrow> response \<times> db" where
  "admin_contacts c e req d =
     protected c e req d (\<lambda>u.
       let contacts = sort_desc contact_createdAt (contacts d)
       in (\<lparr>status = 200, json = Contacts contacts\<rparr>, d))"

subsection \<open>A sample deployment, for evaluating the model on concrete requests\<close>

text \<open>
  An instance of the library parameters: a keyed tag for the signature, a serialisation
  that the parser reads back for the token of the sample user, a digest with its
  comparison, and a store library that refuses every value that is not a string.  The
  sample store holds one user, Ann.
\<close>

definition sample_hmac :: "string \<Rightarrow> jwt_payload \<Rightarrow> string" where
  "sample_hmac secret p = rev secret @ claim_email p"

definition sample_encode :: "jws \<Rightarrow> string" where
  "sample_encode t = claim_name (payload t) @ ''.'' @ signature t"

definition ann_claims :: jwt_payload where
  "ann_claims = \<lparr>claim_id = 1, claim_email = ''ann@x.com'', claim_name = ''Ann'',
                  iat = 5, exp = 604805\<rparr>"

definition ann_jws :: jws where
  "ann_jws = \<lparr>payload = ann_claims, signature = sample_hmac ''s3cret'' ann_claims\<rparr>"

definition sample_decode :: "string \<Rightarrow> jws option" where
  "sample_decode s = (if s = sample_encode ann_jws then Some ann_jws else None)"

definition sample_crypt :: "string \<Rightarrow> nat \<Rightarrow> string \<Rightarrow> string" where
  "sample_crypt s rounds slt = ''2a$10$'' @ slt @ rev s"

definition sample_compare :: "string \<Rightarrow> string \<Rightarrow> bool" where
  "sample_compare s h = (h = CHR ''$'' # sample_crypt s 10 (take 4 (drop 7 h)))"

definition sample_config :: config where
  "sample_config =
     \<lparr>jwt = \<lparr>encode = sample_encode, decode = sample_decode, hmac = sample_hmac\<rparr>,
      bcrypt = \<lparr>crypt = sample_crypt, compare = sample_compare\<rparr>,
      mongoose = \<lparr>cast_other = (\<lambda>v. None), filter_other = (\<lambda>v. None)\<rparr>,
      env_JWT_SECRET = Some ''s3cret''\<rparr>"

definition sample_env :: env where
  "sample_env = \<lparr>fresh_id = 1, salt = ''salt'', now_doc = 5000, now_jwt = 5999\<rparr>"

definition ann :: user where
  "ann = \<lparr>user_id = 1, user_name = ''Ann'', user_email = ''ann@x.com'',
           user_password = ''$2a$10$salt1terces'', user_createdAt = 5000\<rparr>"

definition no_users :: db where
  "no_users = \<lparr>users = [], contacts = [], moods = []\<rparr>"

definition ann_only :: db where
  "ann_only = \<lparr>users = [ann], contacts = [], moods = []\<rparr>"

definition ann_token :: string where
  "ann_token = ''Ann.terc3sann@x.com''"

definition form :: "jsval \<Rightarrow> jsval \<Rightarrow> jsval \<Rightarrow> request" where
  "form n em pw =
     \<lparr>authorization = None,
      body = \<lparr>body_name = n, body_email = em, body_password = pw,
               body_message = Undefined, body_mood = Undefined\<rparr>\<rparr>"

definition contact_form :: "jsval \<Rightarrow> jsval \<Rightarrow> jsval \<Rightarrow> request" where
  "contact_form n em msg =
     \<lparr>authorization = None,
      body = \<lparr>body_name = n, body_email = em, body_password = Undefined,
               body_message = msg, body_mood = Undefined\<rparr>\<rparr>"

definition ann_request :: "jsval \<Rightarrow> request" where
  "ann_request mood =
     \<lparr>authorization = Some (''Bearer '' @ ann_token),
      body = \<lparr>body_name = Undefined, body_email = Undefined, body_password = Undefined,
               body_message = Undefined, body_mood = mood\<rparr>\<rparr>"

definition busy :: db where
  "busy =
     \<lparr>users = [ann],
      contacts =
        [\<lparr>contact_name = ''Bob'', contact_email = ''bob@x.com'', contact_message = ''first'',
          contact_createdAt = 100\<rparr>,
         \<lparr>contact_name = ''Cy'', contact_email = ''cy@x.com'', contact_message = ''third'',
          contact_createdAt = 300\<rparr>,
         \<lparr>contact_name = ''Di'', contact_email = ''di@x.com'', contact_message = ''second'',
          contact_createdAt = 200\<rparr>],
      moods =
        [\<lparr>mood_userId = 1, mood_mood = ''happy'', mood_timestamp = 100\<rparr>,
         \<lparr>mood_userId = 2, mood_mood = ''sad'', mood_timestamp = 150\<rparr>,
         \<lparr>mood_userId = 1, mood_mood = ''excited'', mood_timestamp = 300\<rparr>]\<rparr>"

section \<open>Properties\<close>

subsection \<open>Unfolding the sample deployment\<close>

lemmas sample_defs =
  sample_config_def sample_env_def sample_hmac_def sample_encode_def sample_decode_def
  sample_crypt_def sample_compare_def ann_claims_def ann_jws_def ann_def no_users_def
  ann_only_def ann_token_def form_def

subsection \<open>Signup\<close>

lemma findOne_email_None: "findOne_email em us = None \<longleftrightarrow> (\<forall>u\<in>set us. user_email u \<noteq> em)"
  by (auto simp: findOne_email_def find_None_iff)

lemma findOne_email_Some: "findOne_email em us = Some u \<Longrightarrow> u \<in> set us \<and> user_email u = em"
  by (auto simp: findOne_email_def find_Some_iff)

lemma findOne_email_registered:
  "\<exists>u\<in>set us. user_email u = em \<Longrightarrow> \<exists>u. findOne_email em us = Some u"
  by (cases "findOne_email em us") (auto simp: findOne_email_None)

lemma User_findOne_Str: "User_findOne M (Str em) us = Inr (findOne_email em us)"
  by (simp add: User_findOne_def)

lemma user_save_fresh:
  "user_name u \<noteq> [] \<Longrightarrow> user_email u \<noteq> [] \<Longrightarrow> user_password u \<noteq> [] \<Longrightarrow>
   \<forall>v\<in>set (users d). user_email v \<noteq> user_email u \<Longrightarrow>
   user_save u d = Inr (d\<lparr>users := users d @ [u]\<rparr>)"
  by (auto simp: user_save_def)

lemma signup_missing:
  "\<not> js_truthy (body_name (body req)) \<or> \<not> js_truthy (body_email (body req)) \<or>
   \<not> js_truthy (body_password (body req)) \<Longrightarrow>
   signup c e req d =
     (\<lparr>status = 400, json = Message False ''Please provide all required fields''\<rparr>, d)"
  by (simp add: signup_def Let_def)

lemma signup_registered:
  assumes "js_truthy (body_name (body req))" "js_truthy (body_password (body req))"
    and "body_email (body req) = Str em" "em \<noteq> []"
    and "\<exists>u\<in>set (users d). user_email u = em"
  shows "signup c e req d =
    (\<lparr>status = 400, json = Message False ''Email already registered''\<rparr>, d)"
proof -
  from assms(5) obtain u where "findOne_email em (users d) = Some u"
    using findOne_email_registered by blast
  with assms(1-4) show ?thesis
    by (simp add: signup_def Let_def User_findOne_Str)
qed

lemma signup_created:
  assumes "body_name (body req) = Str n" "n \<noteq> []"
    and "body_email (body req) = Str em" "em \<noteq> []"
    and "body_password (body req) = Str pw" "pw \<noteq> []"
    and "\<forall>v\<in>set (users d). user_email v \<noteq> em"
  shows "signup c e req d =
     (let u = \<lparr>user_id = fresh_id e, user_name = n, user_email = em,
               user_password = bcrypt_hash (bcrypt c) pw 10 (salt e),
               user_createdAt = now_doc e\<rparr>
      in (\<lparr>status = 201,
           json = Session (''Account created successfully! '' @ party)
                    (issueToken c (now_jwt e) u) (view_of u)\<rparr>,
          d\<lparr>users := users d @ [u]\<rparr>))"
proof -
  let ?u = "\<lparr>user_id = fresh_id e, user_name = n, user_email = em,
               user_password = bcrypt_hash (bcrypt c) pw 10 (salt e),
               user_createdAt = now_doc e\<rparr>"
  from assms(7) have none: "findOne_email em (users d) = None"
    by (simp add: findOne_email_None)
  have new: "new_User (mongoose c) e (Str n) (Str em) (bcrypt_hash (bcrypt c) pw 10 (salt e)) = Some ?u"
    by (simp add: new_User_def cast_String_def)
  have "user_save ?u d = Inr (d\<lparr>users := users d @ [?u]\<rparr>)"
    using assms by (intro user_save_fresh) (auto simp: bcrypt_hash_def)
  with assms(1-6) none new show ?thesis
    by (simp add: signup_def Let_def User_findOne_Str bcrypt_hash_value_def)
qed

lemma signup_password_not_string:
  assumes "js_truthy (body_name (body req))" "js_truthy (body_password (body req))"
    and "body_email (body req) = Str em" "em \<noteq> []"
    and "\<forall>v\<in>set (users d). user_email v \<noteq> em"
    and "\<forall>pw. body_password (body req) \<noteq> Str pw"
  shows "signup c e req d =
    (\<lparr>status = 500, json = Message False ''Server error. Please try again.''\<rparr>, d)"
proof -
  from assms(5) have none: "findOne_email em (users d) = None"
    by (simp add: findOne_email_None)
  from assms(6) have "bcrypt_hash_value (bcrypt c) (body_password (body req)) 10 (salt e) =
      Inl IllegalArguments"
    by (cases "body_password (body req)") (simp_all add: bcrypt_hash_value_def)
  with assms(1-4) none show ?thesis
    by (simp add: signup_def Let_def User_findOne_Str)
qed

text \<open>
  Claim C1, for the requests whose outcome the handler itself decides.  A signup request
  in which the name, the email or the password is missing (absent or falsy: the handler's
  \<open>!field\<close>) is answered 400 with the validation message, and the store is as before.
  Otherwise, a request whose email is a string that is the email of a stored user is
  answered 400 with the duplicate-email message, and the store is as before.  Otherwise,
  when the name, the email and the password are strings, the handler stores a new user
  whose password is the bcrypt hash of the request's password at cost 10 under the drawn
  salt, and answers 201 with the token signed for the user's id, email and name and with
  the user object made of the new id, the name and the email.
\<close>

theorem signup_outcome:
  "(\<not> js_truthy (body_name (body req)) \<or> \<not> js_truthy (body_email (body req)) \<or>
    \<not> js_truthy (body_password (body req)) \<longrightarrow>
    signup c e req d =
      (\<lparr>status = 400, json = Message False ''Please provide all required fields''\<rparr>, d))
   \<and> (\<forall>em. js_truthy (body_name (body req)) \<and> js_truthy (body_password (body req)) \<and>
      body_email (body req) = Str em \<and> em \<noteq> [] \<and>
      (\<exists>v\<in>set (users d). user_email v = em) \<longrightarrow>
      signup c e req d =
        (\<lparr>status = 400, json = Message False ''Email already registered''\<rparr>, d))
   \<and> (\<forall>n em pw. body_name (body req) = Str n \<and> n \<noteq> [] \<and>
      body_email (body req) = Str em \<and> em \<noteq> [] \<and>
      body_password (body req) = Str pw \<and> pw \<noteq> [] \<and>
      (\<forall>v\<in>set (users d). user_email v \<noteq> em) \<longrightarrow>
      signup c e req d =
        (\<lparr>status = 201,
          json = Session (''Account created successfully! '' @ party)
            (encode (jwt c)
               \<lparr>payload =
                  \<lparr>claim_id = fresh_id e, claim_email = em, claim_name = n,
                    iat = now_jwt e div 1000, exp = now_jwt e div 1000 + 604800\<rparr>,
                signature = hmac (jwt c) (JWT_SECRET c)
                  \<lparr>claim_id = fresh_id e, claim_email = em, claim_name = n,
                    iat = now_jwt e div 1000, exp = now_jwt e div 1000 + 604800\<rparr>\<rparr>)
            \<lparr>view_id = fresh_id e, view_name = n, view_email = em\<rparr>\<rparr>,
         d\<lparr>users := users d @
            [\<lparr>user_id = fresh_id e, user_name = n, user_email = em,
              user_password = bcrypt_hash (bcrypt c) pw 10 (salt e),
              user_createdAt = now_doc e\<rparr>]\<rparr>))"
proof (intro conjI allI impI)
  assume "\<not> js_truthy (body_name (body req)) \<or> \<not> js_truthy (body_email (body req)) \<or>
    \<not> js_truthy (body_password (body req))"
  then show "signup c e req d =
      (\<lparr>status = 400, json = Message False ''Please provide all required fields''\<rparr>, d)"
    by (rule signup_missing)
next
  fix em
  assume "js_truthy (body_name (body req)) \<and> js_truthy (body_password (body req)) \<and>
      body_email (body req) = Str em \<and> em \<noteq> [] \<and>
      (\<exists>v\<in>set (users d). user_email v = em)"
  then show "signup c e req d =
        (\<lparr>status = 400, json = Message False ''Email already registered''\<rparr>, d)"
    by (intro signup_registered [where em = em]) simp_all
next
  fix n em pw
  assume a: "body_name (body req) = Str n \<and> n \<noteq> [] \<and>
      body_email (body req) = Str em \<and> em \<noteq> [] \<and>
      body_password (body req) = Str pw \<and> pw \<noteq> [] \<and>
      (\<forall>v\<in>set (users d). user_email v \<noteq> em)"
  then have "signup c e req d =
     (let u = \<lparr>user_id = fresh_id e, user_name = n, user_email = em,
               user_password = bcrypt_hash (bcrypt c) pw 10 (salt e),
               user_createdAt = now_doc e\<rparr>
      in (\<lparr>status = 201,
           json = Session (''Account created successfully! '' @ party)
                    (issueToken c (now_jwt e) u) (view_of u)\<rparr>,
          d\<lparr>users := users d @ [u]\<rparr>))"
    by (intro signup_created) simp_all
  then show "signup c e req d =
        (\<lparr>status = 201,
          json = Session (''Account created successfully! '' @ party)
            (encode (jwt c)
               \<lparr>payload =
                  \<lparr>claim_id = fresh_id e, claim_email = em, claim_name = n,
                    iat = now_jwt e div 1000, exp = now_jwt e div 1000 + 604800\<rparr>,
                signature = hmac (jwt c) (JWT_SECRET c)
                  \<lparr>claim_id = fresh_id e, claim_email = em, claim_name = n,
                    iat = now_jwt e div 1000, exp = now_jwt e div 1000 + 604800\<rparr>\<rparr>)
            \<lparr>view_id = fresh_id e, view_name = n, view_email = em\<rparr>\<rparr>,
         d\<lparr>users := users d @
            [\<lparr>user_id = fresh_id e, user_name = n, user_email = em,
              user_password = bcrypt_hash (bcrypt c) pw 10 (salt e),
              user_createdAt = now_doc e\<rparr>]\<rparr>)"
    by (simp add: Let_def issueToken_def jwt_sign_def jwt_signed_def jwt_claims_def
        seven_days_def view_of_def)
qed

theorem signup_outcome_witness:
  "signup sample_config sample_env (form Undefined (Str ''ann@x.com'') (Str ''secret1'')) ann_only =
     (\<lparr>status = 400, json = Message False ''Please provide all required fields''\<rparr>, ann_only)
   \<and> signup sample_config sample_env (form (Str ''Ann'') (Str ''ann@x.com'') (Str ''other'')) ann_only =
     (\<lparr>status = 400, json = Message False ''Email already registered''\<rparr>, ann_only)
   \<and> signup sample_config sample_env (form (Str ''Ann'') (Str ''ann@x.com'') (Str ''secret1'')) no_users =
     (\<lparr>status = 201,
       json = Session (''Account created successfully! '' @ [CHR 0xF0, CHR 0x9F, CHR 0x8E, CHR 0x89])
                ''Ann.terc3sann@x.com''
                \<lparr>view_id = 1, view_name = ''Ann'', view_email = ''ann@x.com''\<rparr>\<rparr>,
      \<lparr>users = [\<lparr>user_id = 1, user_name = ''Ann'', user_email = ''ann@x.com'',
                  user_password = ''$2a$10$salt1terces'', user_createdAt = 5000\<rparr>],
        contacts = [], moods = []\<rparr>)"
  using
    signup_outcome [where req = "form Undefined (Str ''ann@x.com'') (Str ''secret1'')"
      and c = sample_config and e = sample_env and d = ann_only]
    signup_outcome [where req = "form (Str ''Ann'') (Str ''ann@x.com'') (Str ''other'')"
      and c = sample_config and e = sample_env and d = ann_only]
    signup_outcome [where req = "form (Str ''Ann'') (Str ''ann@x.com'') (Str ''secret1'')"
      and c = sample_config and e = sample_env and d = no_users]
  by (simp add: sample_defs truthy_def str_def bcrypt_hash_def JWT_SECRET_def party_def)

text \<open>
  Claim C1 as stated fails for a password that is present but is not a string: with the
  number 12345678 the presence check passes, no user has the email, \<open>bcrypt.hash\<close> rejects
  the number, and the handler's \<open>catch\<close> answers 500 with nothing stored.
\<close>

theorem signup_number_password_counterexample:
  "js_truthy (Num 12345678)
   \<and> signup sample_config sample_env (form (Str ''Ann'') (Str ''ann@x.com'') (Num 12345678)) no_users =
     (\<lparr>status = 500, json = Message False ''Server error. Please try again.''\<rparr>, no_users)"
proof -
  have "signup sample_config sample_env (form (Str ''Ann'') (Str ''ann@x.com'') (Num 12345678)) no_users =
     (\<lparr>status = 500, json = Message False ''Server error. Please try again.''\<rparr>, no_users)"
    by (rule signup_password_not_string [where em = "''ann@x.com''"])
       (simp_all add: form_def no_users_def)
  then show ?thesis by simp
qed

subsection \<open>Session tokens\<close>






subsection \<open>The session middleware\<close>

lemma split_no_sep: "c \<notin> set xs \<Longrightarrow> split c xs = [xs]"
  by (induction xs) auto

lemma split_at_sep: "c \<notin> set xs \<Longrightarrow> split c (xs @ c # ys) = xs # split c ys"
  by (induction xs) auto

lemma split_second_field:
  assumes "c \<notin> set a" "c \<notin> set b" "rest = [] \<or> (\<exists>r. rest = c # r)"
  shows "element (split c (a @ c # b @ rest)) 1 = Some b"
proof -
  have "\<exists>ws. split c (b @ rest) = b # ws"
    using assms(2,3) by (auto simp: split_no_sep split_at_sep)
  then show ?thesis
    using assms(1) by (auto simp: split_at_sep element_def)
qed

lemma fields_of_header:
  assumes "c \<in> set h"
  shows "\<exists>a b rest. h = a @ c # b @ rest \<and> c \<notin> set a \<and> c \<notin> set b \<and>
           (rest = [] \<or> (\<exists>r. rest = c # r))"
proof -
  from assms obtain a zs where h: "h = a @ c # zs" and a: "c \<notin> set a"
    by (auto dest: split_list_first)
  show ?thesis
  proof (cases "c \<in> set zs")
    case False
    with h a have "h = a @ c # zs @ [] \<and> c \<notin> set a \<and> c \<notin> set zs \<and>
        ([] = [] \<or> (\<exists>r. [] = c # r))"
      by simp
    then show ?thesis by blast
  next
    case True
    then obtain b r where zs: "zs = b @ c # r" and b: "c \<notin> set b"
      by (auto dest: split_list_first)
    with h a have "h = a @ c # b @ (c # r) \<and> c \<notin> set a \<and> c \<notin> set b \<and>
        (c # r = [] \<or> (\<exists>r'. c # r = c # r'))"
      by simp
    then show ?thesis by blast
  qed
qed

lemma bearer_token_no_space:
  "CHR '' '' \<notin> set h \<Longrightarrow> \<not> truthy (bearer_token (Some h))"
  by (cases h) (auto simp: bearer_token_def truthy_def str_def element_def split_no_sep)

lemma bearer_token_second_field:
  assumes "CHR '' '' \<notin> set a" "CHR '' '' \<notin> set b"
    and "rest = [] \<or> (\<exists>r. rest = CHR '' '' # r)"
  shows "bearer_token (Some (a @ CHR '' '' # b @ rest)) = Some b"
  using split_second_field [OF assms] by (simp add: bearer_token_def truthy_def str_def)

lemma authenticateToken_cases:
  "authenticateToken c now req =
     (case bearer_token (authorization req) of
        None \<Rightarrow> Respond \<lparr>status = 401, json = Message False ''Access token required''\<rparr>
      | Some tok \<Rightarrow>
          if tok = [] then Respond \<lparr>status = 401, json = Message False ''Access token required''\<rparr>
          else (case verifyToken c now tok of
                  Inl err \<Rightarrow> Respond \<lparr>status = 403, json = Message False ''Invalid or expired token''\<rparr>
                | Inr u \<Rightarrow> Next u))"
  by (simp add: authenticateToken_def Let_def truthy_def str_def split: option.splits)

text \<open>
  Claim C5, as the middleware implements it.  The token is the second space-separated
  field of the Authorization header, and the first field is not inspected.  A request
  without the header, or with a header that has no space, is answered 401 with the
  missing-token message.  Every other header reads \<open>a b\<close> or \<open>a b ...\<close>, with no space in
  \<open>a\<close> and in \<open>b\<close> (the last conjunct): when \<open>b\<close> is empty, as in a header with two
  spaces after the first word, the answer is again 401; when it is not, \<open>b\<close> is the token,
  whatever the word \<open>a\<close> is (\<open>Bearer\<close> in particular) and whatever follows: a token that
  fails verification is answered 403 with the invalid-token message, and a token that
  verifies has its claims attached to the request, which proceeds to the handler.  The
  answer 401 does not depend on what the verification would say.
\<close>

theorem authenticateToken_outcome:
  "(authorization req = None \<longrightarrow>
      authenticateToken c now req =
        Respond \<lparr>status = 401, json = Message False ''Access token required''\<rparr>)
   \<and> (\<forall>h. authorization req = Some h \<and> CHR '' '' \<notin> set h \<longrightarrow>
      authenticateToken c now req =
        Respond \<lparr>status = 401, json = Message False ''Access token required''\<rparr>)
   \<and> (\<forall>a b rest. authorization req = Some (a @ CHR '' '' # b @ rest) \<and>
        CHR '' '' \<notin> set a \<and> CHR '' '' \<notin> set b \<and>
        (rest = [] \<or> (\<exists>r. rest = CHR '' '' # r)) \<longrightarrow>
      authenticateToken c now req =
        (if b = [] then
           Respond \<lparr>status = 401, json = Message False ''Access token required''\<rparr>
         else
           (case verifyToken c now b of
              Inl err \<Rightarrow> Respond \<lparr>status = 403, json = Message False ''Invalid or expired token''\<rparr>
            | Inr u \<Rightarrow> Next u)))
   \<and> (\<forall>h. CHR '' '' \<in> set h \<longrightarrow>
        (\<exists>a b rest. h = a @ CHR '' '' # b @ rest \<and>
           CHR '' '' \<notin> set a \<and> CHR '' '' \<notin> set b \<and>
           (rest = [] \<or> (\<exists>r. rest = CHR '' '' # r))))"
proof (intro conjI allI impI)
  assume "authorization req = None"
  then show "authenticateToken c now req =
        Respond \<lparr>status = 401, json = Message False ''Access token required''\<rparr>"
    by (simp add: authenticateToken_cases bearer_token_def truthy_def)
next
  fix h assume "authorization req = Some h \<and> CHR '' '' \<notin> set h"
  then show "authenticateToken c now req =
        Respond \<lparr>status = 401, json = Message False ''Access token required''\<rparr>"
    using bearer_token_no_space [of h]
    by (simp add: authenticateToken_def Let_def)
next
  fix a b rest
  assume "authorization req = Some (a @ CHR '' '' # b @ rest) \<and>
        CHR '' '' \<notin> set a \<and> CHR '' '' \<notin> set b \<and>
        (rest = [] \<or> (\<exists>r. rest = CHR '' '' # r))"
  then have "authorization req = Some (a @ CHR '' '' # b @ rest)"
    and "bearer_token (Some (a @ CHR '' '' # b @ rest)) = Some b"
    by (simp_all add: bearer_token_second_field)
  then show "authenticateToken c now req =
        (if b = [] then
           Respond \<lparr>status = 401, json = Message False ''Access token required''\<rparr>
         else
           (case verifyToken c now b of
              Inl err \<Rightarrow> Respond \<lparr>status = 403, json = Message False ''Invalid or expired token''\<rparr>
            | Inr u \<Rightarrow> Next u))"
    by (simp add: authenticateToken_cases)
next
  fix h :: string
  assume "CHR '' '' \<in> set h"
  then show "\<exists>a b rest. h = a @ CHR '' '' # b @ rest \<and>
           CHR '' '' \<notin> set a \<and> CHR '' '' \<notin> set b \<and>
           (rest = [] \<or> (\<exists>r. rest = CHR '' '' # r))"
    by (rule fields_of_header)
qed

lemma verify_ann_token: "verifyToken sample_config 6000 ann_token = Inr ann_claims"
  by (simp add: sample_defs verifyToken_def jwt_verify_def JWT_SECRET_def truthy_def str_def)

lemma verify_abc: "verifyToken sample_config 6000 ''abc'' = Inl JsonWebTokenError"
  by (simp add: sample_defs verifyToken_def jwt_verify_def JWT_SECRET_def truthy_def str_def)

lemma ann_token_word: "CHR '' '' \<notin> set ann_token" "ann_token \<noteq> []"
  by (simp_all add: ann_token_def)

theorem authenticateToken_outcome_witness:
  "authenticateToken sample_config 6000
      \<lparr>authorization = None, body = body (form Undefined Undefined Undefined)\<rparr> =
     Respond \<lparr>status = 401, json = Message False ''Access token required''\<rparr>
   \<and> authenticateToken sample_config 6000
      \<lparr>authorization = Some ''Bearer'', body = body (form Undefined Undefined Undefined)\<rparr> =
     Respond \<lparr>status = 401, json = Message False ''Access token required''\<rparr>
   \<and> authenticateToken sample_config 6000
      \<lparr>authorization = Some (''Bearer  '' @ ann_token),
        body = body (form Undefined Undefined Undefined)\<rparr> =
     Respond \<lparr>status = 401, json = Message False ''Access token required''\<rparr>
   \<and> authenticateToken sample_config 6000
      \<lparr>authorization = Some (''Bearer '' @ ann_token),
        body = body (form Undefined Undefined Undefined)\<rparr> = Next ann_claims
   \<and> authenticateToken sample_config 6000
      \<lparr>authorization = Some (''Bearer '' @ ann_token @ '' more''),
        body = body (form Undefined Undefined Undefined)\<rparr> = Next ann_claims
   \<and> authenticateToken sample_config 6000
      \<lparr>authorization = Some ''Bearer abc'',
        body = body (form Undefined Undefined Undefined)\<rparr> =
     Respond \<lparr>status = 403, json = Message False ''Invalid or expired token''\<rparr>"
proof -
  let ?b = "body (form Undefined Undefined Undefined)"
  have none: "authenticateToken sample_config 6000 \<lparr>authorization = None, body = ?b\<rparr> =
     Respond \<lparr>status = 401, json = Message False ''Access token required''\<rparr>"
    using authenticateToken_outcome [where req = "\<lparr>authorization = None, body = ?b\<rparr>"
        and c = sample_config and now = 6000]
    by simp
  have word: "authenticateToken sample_config 6000 \<lparr>authorization = Some ''Bearer'', body = ?b\<rparr> =
     Respond \<lparr>status = 401, json = Message False ''Access token required''\<rparr>"
    using authenticateToken_outcome [where req = "\<lparr>authorization = Some ''Bearer'', body = ?b\<rparr>"
        and c = sample_config and now = 6000, THEN conjunct2, THEN conjunct1, THEN spec,
        of "''Bearer''"]
    by simp
  have two: "authenticateToken sample_config 6000
      \<lparr>authorization = Some (''Bearer'' @ CHR '' '' # [] @ CHR '' '' # ann_token), body = ?b\<rparr> =
     Respond \<lparr>status = 401, json = Message False ''Access token required''\<rparr>"
    using authenticateToken_outcome
      [where req = "\<lparr>authorization = Some (''Bearer'' @ CHR '' '' # [] @ CHR '' '' # ann_token),
          body = ?b\<rparr>"
        and c = sample_config and now = 6000, THEN conjunct2, THEN conjunct2, THEN conjunct1,
        THEN spec, THEN spec, THEN spec, of "''Bearer''" "[]" "CHR '' '' # ann_token"]
    by simp
  have good: "authenticateToken sample_config 6000
      \<lparr>authorization = Some (''Bearer'' @ CHR '' '' # ann_token @ []), body = ?b\<rparr> =
     Next ann_claims"
    using authenticateToken_outcome
      [where req = "\<lparr>authorization = Some (''Bearer'' @ CHR '' '' # ann_token @ []), body = ?b\<rparr>"
        and c = sample_config and now = 6000, THEN conjunct2, THEN conjunct2, THEN conjunct1,
        THEN spec, THEN spec, THEN spec, of "''Bearer''" ann_token "[]"]
      ann_token_word
    by (simp add: verify_ann_token)
  have more: "authenticateToken sample_config 6000
      \<lparr>authorization = Some (''Bearer'' @ CHR '' '' # ann_token @ '' more''), body = ?b\<rparr> =
     Next ann_claims"
    using authenticateToken_outcome
      [where req = "\<lparr>authorization = Some (''Bearer'' @ CHR '' '' # ann_token @ '' more''),
          body = ?b\<rparr>"
        and c = sample_config and now = 6000, THEN conjunct2, THEN conjunct2, THEN conjunct1,
        THEN spec, THEN spec, THEN spec, of "''Bearer''" ann_token "'' more''"]
      ann_token_word
    by (simp add: verify_ann_token)
  have bad: "authenticateToken sample_config 6000
      \<lparr>authorization = Some (''Bearer'' @ CHR '' '' # ''abc'' @ []), body = ?b\<rparr> =
     Respond \<lparr>status = 403, json = Message False ''Invalid or expired token''\<rparr>"
    using authenticateToken_outcome
      [where req = "\<lparr>authorization = Some (''Bearer'' @ CHR '' '' # ''abc'' @ []), body = ?b\<rparr>"
        and c = sample_config and now = 6000, THEN conjunct2, THEN conjunct2, THEN conjunct1,
        THEN spec, THEN spec, THEN spec, of "''Bearer''" "''abc''" "[]"]
    by (simp add: verify_abc)
  from none word two good more bad show ?thesis
    by simp
qed

text \<open>
  Claim C5 as stated fails for a header that is not in the \<open>Bearer\<close> format but has a
  second field: \<open>Basic abc\<close> reaches the verification and is answered 403, not 401, and
  a valid token sent as \<open>Token <token>\<close> is accepted.
\<close>

theorem authenticateToken_unchecked_scheme:
  "authenticateToken sample_config 6000
      \<lparr>authorization = Some ''Basic abc'', body = body (form Undefined Undefined Undefined)\<rparr> =
     Respond \<lparr>status = 403, json = Message False ''Invalid or expired token''\<rparr>
   \<and> authenticateToken sample_config 6000
      \<lparr>authorization = Some (''Token '' @ ann_token),
        body = body (form Undefined Undefined Undefined)\<rparr> =
     Next ann_claims"
proof -
  have basic: "bearer_token (Some ''Basic abc'') = Some ''abc''"
    using bearer_token_second_field [of "''Basic''" "''abc''" "[]"] by simp
  have tok: "bearer_token (Some (''Token '' @ ann_token)) = Some ann_token"
    using bearer_token_second_field [of "''Token''" ann_token "[]"] ann_token_word by simp
  show ?thesis
    using ann_token_word basic tok
    by (simp add: authenticateToken_cases verify_ann_token verify_abc)
qed

subsection \<open>Login\<close>

lemma login_missing:
  "\<not> js_truthy (body_email (body req)) \<or> \<not> js_truthy (body_password (body req)) \<Longrightarrow>
   login c e req d =
     (\<lparr>status = 400, json = Message False ''Please provide email and password''\<rparr>, d)"
  by (simp add: login_def Let_def)

lemma login_unknown:
  "js_truthy (body_email (body req)) \<Longrightarrow> js_truthy (body_password (body req)) \<Longrightarrow>
   User_findOne (mongoose c) (body_email (body req)) (users d) = Inr None \<Longrightarrow>
   login c e req d = (\<lparr>status = 400, json = Message False ''Invalid email or password''\<rparr>, d)"
  by (simp add: login_def Let_def)

lemma login_wrong_password:
  "js_truthy (body_email (body req)) \<Longrightarrow> body_password (body req) = Str pw \<Longrightarrow> pw \<noteq> [] \<Longrightarrow>
   User_findOne (mongoose c) (body_email (body req)) (users d) = Inr (Some u) \<Longrightarrow>
   \<not> compare (bcrypt c) pw (user_password u) \<Longrightarrow>
   login c e req d = (\<lparr>status = 400, json = Message False ''Invalid email or password''\<rparr>, d)"
  by (simp add: login_def Let_def bcrypt_compare_value_def)

lemma login_password_not_string:
  assumes "js_truthy (body_email (body req))" "js_truthy (body_password (body req))"
    and "User_findOne (mongoose c) (body_email (body req)) (users d) = Inr (Some u)"
    and "\<forall>pw. body_password (body req) \<noteq> Str pw"
  shows "login c e req d =
    (\<lparr>status = 500, json = Message False ''Server error. Please try again.''\<rparr>, d)"
proof -
  from assms(4) have "bcrypt_compare_value (bcrypt c) (body_password (body req)) (user_password u) =
      Inl IllegalArguments"
    by (cases "body_password (body req)") (simp_all add: bcrypt_compare_value_def)
  with assms(1-3) show ?thesis
    by (simp add: login_def Let_def)
qed

text \<open>
  With a password that is a string, the login with an unknown email and the login with a
  registered email and a password that the stored hash does not match are answered alike.
\<close>

lemma login_string_password_indistinguishable:
  assumes "js_truthy (body_email (body r1))" "body_password (body r1) = Str p1" "p1 \<noteq> []"
    and "js_truthy (body_email (body r2))" "body_password (body r2) = Str p2" "p2 \<noteq> []"
    and "User_findOne (mongoose c) (body_email (body r1)) (users d) = Inr None"
    and "User_findOne (mongoose c) (body_email (body r2)) (users d) = Inr (Some u)"
    and "\<not> compare (bcrypt c) p2 (user_password u)"
  shows "login c e1 r1 d = (\<lparr>status = 400, json = Message False ''Invalid email or password''\<rparr>, d)
     \<and> login c e2 r2 d = (\<lparr>status = 400, json = Message False ''Invalid email or password''\<rparr>, d)"
  using assms login_unknown [of r1 c d e1] login_wrong_password [of r2 p2 c d u e2]
  by simp

lemma ann_lookup: "findOne_email ''ann@x.com'' (users ann_only) = Some ann"
  by (simp add: findOne_email_def ann_only_def ann_def)

lemma bob_lookup: "findOne_email ''bob@x.com'' (users ann_only) = None"
  by (simp add: findOne_email_def ann_only_def ann_def)

lemma ann_wrong_password: "\<not> compare (bcrypt sample_config) ''wrong'' (user_password ann)"
  by (simp add: sample_defs)

text \<open>
  Claim C3 at the input where the code breaks it.  Ann is registered, Bob is not, and both
  login requests carry the number 12345678 as the password, which is not Ann's.  The
  request with Bob's email is answered 400 with the invalid-credentials message.  The
  request with Ann's email reaches \<open>bcrypt.compare\<close>, which rejects a password that is not
  a string, and the handler's \<open>catch\<close> answers 500 with the server-error message: the two
  answers differ in status and in message, and tell that Ann's email is registered.
\<close>

theorem login_number_password_reveals_registration:
  "findOne_email ''bob@x.com'' (users ann_only) = None
   \<and> findOne_email ''ann@x.com'' (users ann_only) = Some ann
   \<and> login sample_config sample_env (form Undefined (Str ''bob@x.com'') (Num 12345678)) ann_only =
       (\<lparr>status = 400, json = Message False ''Invalid email or password''\<rparr>, ann_only)
   \<and> login sample_config sample_env (form Undefined (Str ''ann@x.com'') (Num 12345678)) ann_only =
       (\<lparr>status = 500, json = Message False ''Server error. Please try again.''\<rparr>, ann_only)"
proof -
  have bob: "login sample_config sample_env (form Undefined (Str ''bob@x.com'') (Num 12345678)) ann_only =
       (\<lparr>status = 400, json = Message False ''Invalid email or password''\<rparr>, ann_only)"
    by (rule login_unknown) (simp_all add: form_def User_findOne_Str bob_lookup)
  have ann: "login sample_config sample_env (form Undefined (Str ''ann@x.com'') (Num 12345678)) ann_only =
       (\<lparr>status = 500, json = Message False ''Server error. Please try again.''\<rparr>, ann_only)"
    by (rule login_password_not_string [where u = ann])
       (simp_all add: form_def User_findOne_Str ann_lookup)
  from bob ann show ?thesis
    by (simp add: ann_lookup bob_lookup)
qed

theorem login_number_password_reveals_registration_witness:
  "status (fst (login sample_config sample_env
                  (form Undefined (Str ''bob@x.com'') (Num 12345678)) ann_only)) = 400
   \<and> status (fst (login sample_config sample_env
                  (form Undefined (Str ''ann@x.com'') (Num 12345678)) ann_only)) = 500
   \<and> fst (login sample_config sample_env
             (form Undefined (Str ''bob@x.com'') (Num 12345678)) ann_only) \<noteq>
       fst (login sample_config sample_env
             (form Undefined (Str ''ann@x.com'') (Num 12345678)) ann_only)"
  using login_number_password_reveals_registration by simp

subsection \<open>Signup with a registered email\<close>

lemma signup_status_400_keeps_store:
  assumes reg: "\<exists>u\<in>set (users d). body_email (body req) = Str (user_email u)"
  shows "snd (signup c e req d) = d \<and> status (fst (signup c e req d)) = 400"
proof (cases "js_truthy (body_name (body req)) \<and> js_truthy (body_email (body req)) \<and>
              js_truthy (body_password (body req))")
  case True
  from reg obtain u where u: "u \<in> set (users d)" "body_email (body req) = Str (user_email u)"
    by blast
  with True have "signup c e req d =
      (\<lparr>status = 400, json = Message False ''Email already registered''\<rparr>, d)"
    by (intro signup_registered [where em = "user_email u"]) auto
  then show ?thesis by simp
next
  case False
  then have "signup c e req d =
      (\<lparr>status = 400, json = Message False ''Please provide all required fields''\<rparr>, d)"
    by (intro signup_missing) auto
  then show ?thesis by simp
qed

text \<open>
  Claim C4, with the presence check that precedes the lookup.  A signup request that
  supplies a name, an email and a password (none of them missing) and whose email is the
  email of a stored user is answered 400 with the duplicate-email message, and the store
  is as before.  A signup request whose email is the email of a stored user, whatever its
  other fields, is answered 400 and leaves the store as it was.
\<close>

theorem signup_duplicate_email:
  "(js_truthy (body_name (body req)) \<and> js_truthy (body_email (body req)) \<and>
    js_truthy (body_password (body req)) \<and>
    (\<exists>u\<in>set (users d). body_email (body req) = Str (user_email u)) \<longrightarrow>
    signup c e req d = (\<lparr>status = 400, json = Message False ''Email already registered''\<rparr>, d))
   \<and> ((\<exists>u\<in>set (users d). body_email (body req) = Str (user_email u)) \<longrightarrow>
    snd (signup c e req d) = d \<and> status (fst (signup c e req d)) = 400)"
proof (intro conjI impI)
  assume a: "js_truthy (body_name (body req)) \<and> js_truthy (body_email (body req)) \<and>
    js_truthy (body_password (body req)) \<and>
    (\<exists>u\<in>set (users d). body_email (body req) = Str (user_email u))"
  then obtain u where u: "u \<in> set (users d)" "body_email (body req) = Str (user_email u)"
    by blast
  with a show "signup c e req d =
      (\<lparr>status = 400, json = Message False ''Email already registered''\<rparr>, d)"
    by (intro signup_registered [where em = "user_email u"]) auto
next
  assume "\<exists>u\<in>set (users d). body_email (body req) = Str (user_email u)"
  then show "snd (signup c e req d) = d" "status (fst (signup c e req d)) = 400"
    using signup_status_400_keeps_store [of d req c e] by simp_all
qed

theorem signup_duplicate_email_witness:
  "signup sample_config sample_env (form (Str ''Annie'') (Str ''ann@x.com'') (Str ''pw2'')) ann_only =
     (\<lparr>status = 400, json = Message False ''Email already registered''\<rparr>, ann_only)
   \<and> signup sample_config sample_env (form (Str ''Annie'') (Str ''ann@x.com'') (Num 12345678)) ann_only =
     (\<lparr>status = 400, json = Message False ''Email already registered''\<rparr>, ann_only)
   \<and> snd (signup sample_config sample_env (form Undefined (Str ''ann@x.com'') Undefined) ann_only) =
     ann_only"
proof -
  have reg: "\<exists>u\<in>set (users ann_only). Str ''ann@x.com'' = Str (user_email u)"
    by (simp add: ann_only_def ann_def)
  show ?thesis
    using reg
      signup_duplicate_email [where req = "form (Str ''Annie'') (Str ''ann@x.com'') (Str ''pw2'')"
        and d = ann_only and c = sample_config and e = sample_env]
      signup_duplicate_email [where req = "form (Str ''Annie'') (Str ''ann@x.com'') (Num 12345678)"
        and d = ann_only and c = sample_config and e = sample_env]
      signup_duplicate_email [where req = "form Undefined (Str ''ann@x.com'') Undefined"
        and d = ann_only and c = sample_config and e = sample_env]
    by (simp add: form_def)
qed

text \<open>
  Claim C4 as stated fails for a request with a registered email and no name: the answer
  is the validation message, not the duplicate-email message.
\<close>

theorem signup_duplicate_missing_name_counterexample:
  "findOne_email ''ann@x.com'' (users ann_only) = Some ann
   \<and> user_email ann = ''ann@x.com''
   \<and> signup sample_config sample_env (form Undefined (Str ''ann@x.com'') (Str ''pw2'')) ann_only =
     (\<lparr>status = 400, json = Message False ''Please provide all required fields''\<rparr>, ann_only)"
proof -
  have "signup sample_config sample_env (form Undefined (Str ''ann@x.com'') (Str ''pw2'')) ann_only =
     (\<lparr>status = 400, json = Message False ''Please provide all required fields''\<rparr>, ann_only)"
    by (rule signup_missing) (simp add: form_def)
  then show ?thesis
    by (simp add: ann_lookup) (simp add: ann_def)
qed

subsection \<open>The contact form\<close>

lemma contact_missing:
  "\<not> js_truthy (body_name (body req)) \<or> \<not> js_truthy (body_email (body req)) \<or>
   \<not> js_truthy (body_message (body req)) \<Longrightarrow>
   contact_route c e req d =
     (\<lparr>status = 400, json = Message False ''Please provide all fields''\<rparr>, d)"
  by (simp add: contact_route_def Let_def)

lemma contact_saved:
  assumes "body_name (body req) = Str n" "n \<noteq> []"
    and "body_email (body req) = Str em" "em \<noteq> []"
    and "body_message (body req) = Str msg" "msg \<noteq> []"
  shows "contact_route c e req d =
     (\<lparr>status = 200, json = Message True thanks\<rparr>,
      d\<lparr>contacts := contacts d @
          [\<lparr>contact_name = n, contact_email = em, contact_message = msg,
            contact_createdAt = now_doc e\<rparr>]\<rparr>)"
  using assms
  by (simp add: contact_route_def new_Contact_def cast_String_def contact_save_def Let_def)

text \<open>
  Claim C7, as the handler implements it.  A contact submission in which the name, the
  email or the message is missing (absent or falsy) is answered 400 with the validation
  message and appends nothing, so a message is appended only after the three fields were
  found present.  The form of the email is not examined: a submission whose three fields
  are non-empty strings is answered 200 and appends one contact message with the three
  fields as sent, whatever the email is.
\<close>

theorem contact_outcome:
  "(\<not> js_truthy (body_name (body req)) \<or> \<not> js_truthy (body_email (body req)) \<or>
    \<not> js_truthy (body_message (body req)) \<longrightarrow>
    contact_route c e req d =
      (\<lparr>status = 400, json = Message False ''Please provide all fields''\<rparr>, d))
   \<and> (snd (contact_route c e req d) \<noteq> d \<longrightarrow>
      js_truthy (body_name (body req)) \<and> js_truthy (body_email (body req)) \<and>
      js_truthy (body_message (body req)))
   \<and> (\<forall>n em msg. body_name (body req) = Str n \<and> n \<noteq> [] \<and>
      body_email (body req) = Str em \<and> em \<noteq> [] \<and>
      body_message (body req) = Str msg \<and> msg \<noteq> [] \<longrightarrow>
      contact_route c e req d =
        (\<lparr>status = 200, json = Message True thanks\<rparr>,
         d\<lparr>contacts := contacts d @
            [\<lparr>contact_name = n, contact_email = em, contact_message = msg,
              contact_createdAt = now_doc e\<rparr>]\<rparr>))"
proof (intro conjI allI impI)
  assume "\<not> js_truthy (body_name (body req)) \<or> \<not> js_truthy (body_email (body req)) \<or>
    \<not> js_truthy (body_message (body req))"
  then show "contact_route c e req d =
      (\<lparr>status = 400, json = Message False ''Please provide all fields''\<rparr>, d)"
    by (rule contact_missing)
next
  assume changed: "snd (contact_route c e req d) \<noteq> d"
  have "js_truthy (body_name (body req)) \<and> js_truthy (body_email (body req)) \<and>
      js_truthy (body_message (body req))"
  proof (rule ccontr)
    assume "\<not> (js_truthy (body_name (body req)) \<and> js_truthy (body_email (body req)) \<and>
      js_truthy (body_message (body req)))"
    then have "contact_route c e req d =
      (\<lparr>status = 400, json = Message False ''Please provide all fields''\<rparr>, d)"
      by (intro contact_missing) auto
    with changed show False by simp
  qed
  then show "js_truthy (body_name (body req))" "js_truthy (body_email (body req))"
    "js_truthy (body_message (body req))"
    by simp_all
next
  fix n em msg
  assume "body_name (body req) = Str n \<and> n \<noteq> [] \<and>
      body_email (body req) = Str em \<and> em \<noteq> [] \<and>
      body_message (body req) = Str msg \<and> msg \<noteq> []"
  then show "contact_route c e req d =
        (\<lparr>status = 200, json = Message True thanks\<rparr>,
         d\<lparr>contacts := contacts d @
            [\<lparr>contact_name = n, contact_email = em, contact_message = msg,
              contact_createdAt = now_doc e\<rparr>]\<rparr>)"
    by (intro contact_saved) simp_all
qed

theorem contact_outcome_witness:
  "contact_route sample_config sample_env
      (contact_form (Str ''Ann'') Undefined (Str ''hello'')) no_users =
     (\<lparr>status = 400, json = Message False ''Please provide all fields''\<rparr>, no_users)
   \<and> contact_route sample_config sample_env
      (contact_form (Str ''Ann'') (Str ''ann@x.com'') (Str ''hello'')) no_users =
     (\<lparr>status = 200,
       json = Message True
         (''Thank you for your message! We'' @ [CHR 0x27] @ ''ll get back to you soon. '' @
           [CHR 0xF0, CHR 0x9F, CHR 0x93, CHR 0xA7])\<rparr>,
      \<lparr>users = [],
        contacts = [\<lparr>contact_name = ''Ann'', contact_email = ''ann@x.com'',
                     contact_message = ''hello'', contact_createdAt = 5000\<rparr>],
        moods = []\<rparr>)"
  using
    contact_outcome [where req = "contact_form (Str ''Ann'') Undefined (Str ''hello'')"
      and c = sample_config and e = sample_env and d = no_users]
    contact_outcome [where req = "contact_form (Str ''Ann'') (Str ''ann@x.com'') (Str ''hello'')"
      and c = sample_config and e = sample_env and d = no_users]
  by (simp add: contact_form_def no_users_def sample_env_def thanks_def envelope_def)

text \<open>
  Claim C7 as stated fails for an email that matches no email pattern: a submission whose
  email has no \<open>@\<close> is answered 200 and its message is appended.
\<close>

theorem contact_email_pattern_counterexample:
  "CHR ''@'' \<notin> set ''not-an-email''
   \<and> contact_route sample_config sample_env
        (contact_form (Str ''Ann'') (Str ''not-an-email'') (Str ''hello'')) no_users =
     (\<lparr>status = 200,
       json = Message True
         (''Thank you for your message! We'' @ [CHR 0x27] @ ''ll get back to you soon. '' @
           [CHR 0xF0, CHR 0x9F, CHR 0x93, CHR 0xA7])\<rparr>,
      \<lparr>users = [],
        contacts = [\<lparr>contact_name = ''Ann'', contact_email = ''not-an-email'',
                     contact_message = ''hello'', contact_createdAt = 5000\<rparr>],
        moods = []\<rparr>)"
  by (simp add: contact_route_def new_Contact_def cast_String_def contact_save_def
      contact_form_def no_users_def sample_env_def thanks_def envelope_def Let_def)

subsection \<open>The protected listings\<close>

lemma sort_desc_sorted: "sorted_wrt (\<lambda>a b. f b \<le> f a) (sort_desc f xs)"
proof -
  have "sorted (map (\<lambda>x. - f x) (sort_key (\<lambda>x. - f x) xs))"
    by (rule sorted_sort_key)
  then show ?thesis
    by (simp add: sort_desc_def sorted_wrt_map)
qed

lemma sort_desc_set: "set (sort_desc f xs) = set xs"
  by (simp add: sort_desc_def)

lemma sort_desc_mset: "mset (sort_desc f xs) = mset xs"
  by (simp add: sort_desc_def)

lemma protected_next:
  "authenticateToken c (now_jwt e) req = Next u \<Longrightarrow> protected c e req d handler = handler u"
  by (simp add: protected_def)

lemma ann_authenticated:
  "authenticateToken sample_config (now_jwt sample_env) (ann_request mood) = Next ann_claims"
proof -
  have tok: "bearer_token (Some (''Bearer '' @ ann_token)) = Some ann_token"
    using bearer_token_second_field [of "''Bearer''" ann_token "[]"] ann_token_word by simp
  have v: "verifyToken sample_config 5999 ann_token = Inr ann_claims"
    by (simp add: sample_defs verifyToken_def jwt_verify_def JWT_SECRET_def truthy_def str_def)
  show ?thesis
    using ann_token_word tok v
    by (simp add: authenticateToken_cases ann_request_def sample_env_def)
qed

text \<open>
  Claim C6.  For a request that the middleware authenticates with claims \<open>u\<close>, and any
  state of the mood log, the history route answers 200 with a list of selections of the
  log, each owned by the id of \<open>u\<close>, of length at most 50, ordered by timestamp from
  newest to oldest; the store is as before.
\<close>

theorem mood_history_outcome:
  "authenticateToken c (now_jwt e) req = Next u \<longrightarrow>
   (\<exists>h. mood_history c e req d = (\<lparr>status = 200, json = History h\<rparr>, d)
      \<and> set h \<subseteq> set (moods d)
      \<and> (\<forall>m\<in>set h. mood_userId m = claim_id u)
      \<and> length h \<le> 50
      \<and> sorted_wrt (\<lambda>a b. mood_timestamp b \<le> mood_timestamp a) h)"
proof
  assume auth: "authenticateToken c (now_jwt e) req = Next u"
  let ?mine = "filter (\<lambda>m. mood_userId m = claim_id u) (moods d)"
  let ?h = "take 50 (sort_desc mood_timestamp ?mine)"
  have res: "mood_history c e req d = (\<lparr>status = 200, json = History ?h\<rparr>, d)"
    by (simp add: mood_history_def protected_next [OF auth] Let_def)
  have sub: "set ?h \<subseteq> set ?mine"
    using set_take_subset [of 50 "sort_desc mood_timestamp ?mine"] by (simp add: sort_desc_set)
  then have own: "\<forall>m\<in>set ?h. mood_userId m = claim_id u" and log: "set ?h \<subseteq> set (moods d)"
    by auto
  have len: "length ?h \<le> 50"
    by simp
  have srt: "sorted_wrt (\<lambda>a b. mood_timestamp b \<le> mood_timestamp a) ?h"
    by (rule sorted_wrt_take) (rule sort_desc_sorted)
  from res log own len srt
  show "\<exists>h. mood_history c e req d = (\<lparr>status = 200, json = History h\<rparr>, d)
      \<and> set h \<subseteq> set (moods d)
      \<and> (\<forall>m\<in>set h. mood_userId m = claim_id u)
      \<and> length h \<le> 50
      \<and> sorted_wrt (\<lambda>a b. mood_timestamp b \<le> mood_timestamp a) h"
    by blast
qed

theorem mood_history_outcome_witness:
  "authenticateToken sample_config (now_jwt sample_env) (ann_request Undefined) = Next ann_claims
   \<and> mood_history sample_config sample_env (ann_request Undefined) busy =
     (\<lparr>status = 200,
       json = History [\<lparr>mood_userId = 1, mood_mood = ''excited'', mood_timestamp = 300\<rparr>,
                       \<lparr>mood_userId = 1, mood_mood = ''happy'', mood_timestamp = 100\<rparr>]\<rparr>, busy)
   \<and> (\<exists>h. mood_history sample_config sample_env (ann_request Undefined) busy =
            (\<lparr>status = 200, json = History h\<rparr>, busy)
      \<and> set h \<subseteq> set (moods busy)
      \<and> (\<forall>m\<in>set h. mood_userId m = claim_id ann_claims)
      \<and> length h \<le> 50
      \<and> sorted_wrt (\<lambda>a b. mood_timestamp b \<le> mood_timestamp a) h)"
proof -
  have ev: "mood_history sample_config sample_env (ann_request Undefined) busy =
     (\<lparr>status = 200,
       json = History [\<lparr>mood_userId = 1, mood_mood = ''excited'', mood_timestamp = 300\<rparr>,
                       \<lparr>mood_userId = 1, mood_mood = ''happy'', mood_timestamp = 100\<rparr>]\<rparr>, busy)"
    by (simp add: mood_history_def protected_next [OF ann_authenticated] sort_desc_def
        busy_def ann_claims_def Let_def)
  from mood_history_outcome [where c = sample_config and e = sample_env
      and req = "ann_request Undefined" and u = ann_claims and d = busy]
    ann_authenticated [of Undefined] ev
  show ?thesis
    by blast
qed

text \<open>
  Claim C9.  For a request that the middleware authenticates, whatever the claims of its
  token, the contacts route answers 200 with all the contact messages of the store (the
  same messages with the same multiplicities), ordered by creation time from newest to
  oldest; the store is as before.  The claims are not consulted.
\<close>

theorem admin_contacts_outcome:
  "authenticateToken c (now_jwt e) req = Next u \<longrightarrow>
   (\<exists>cs. admin_contacts c e req d = (\<lparr>status = 200, json = Contacts cs\<rparr>, d)
      \<and> mset cs = mset (contacts d)
      \<and> sorted_wrt (\<lambda>a b. contact_createdAt b \<le> contact_createdAt a) cs)"
proof
  assume auth: "authenticateToken c (now_jwt e) req = Next u"
  let ?cs = "sort_desc contact_createdAt (contacts d)"
  have "admin_contacts c e req d = (\<lparr>status = 200, json = Contacts ?cs\<rparr>, d)"
    by (simp add: admin_contacts_def protected_next [OF auth] Let_def)
  moreover have "mset ?cs = mset (contacts d)"
    by (rule sort_desc_mset)
  moreover have "sorted_wrt (\<lambda>a b. contact_createdAt b \<le> contact_createdAt a) ?cs"
    by (rule sort_desc_sorted)
  ultimately
  show "\<exists>cs. admin_contacts c e req d = (\<lparr>status = 200, json = Contacts cs\<rparr>, d)
      \<and> mset cs = mset (contacts d)
      \<and> sorted_wrt (\<lambda>a b. contact_createdAt b \<le> contact_createdAt a) cs"
    by blast
qed

theorem admin_contacts_outcome_witness:
  "authenticateToken sample_config (now_jwt sample_env) (ann_request Undefined) = Next ann_claims
   \<and> map contact_message (contacts busy) = [''first'', ''third'', ''second'']
   \<and> (\<exists>cs. admin_contacts sample_config sample_env (ann_request Undefined) busy =
            (\<lparr>status = 200, json = Contacts cs\<rparr>, busy)
      \<and> map contact_message cs = [''third'', ''second'', ''first'']
      \<and> mset cs = mset (contacts busy)
      \<and> sorted_wrt (\<lambda>a b. contact_createdAt b \<le> contact_createdAt a) cs)"
proof -
  have ev: "admin_contacts sample_config sample_env (ann_request Undefined) busy =
     (\<lparr>status = 200, json = Contacts (sort_desc contact_createdAt (contacts busy))\<rparr>, busy)"
    by (simp add: admin_contacts_def protected_next [OF ann_authenticated] Let_def)
  have msgs: "map contact_message (sort_desc contact_createdAt (contacts busy)) =
      [''third'', ''second'', ''first'']"
    by (simp add: sort_desc_def busy_def)
  have orig: "map contact_message (contacts busy) = [''first'', ''third'', ''second'']"
    by (simp add: busy_def)
  from admin_contacts_outcome [where c = sample_config and e = sample_env
      and req = "ann_request Undefined" and u = ann_claims and d = busy]
    ann_authenticated [of Undefined]
  obtain cs where cs: "admin_contacts sample_config sample_env (ann_request Undefined) busy =
            (\<lparr>status = 200, json = Contacts cs\<rparr>, busy)"
      "mset cs = mset (contacts busy)"
      "sorted_wrt (\<lambda>a b. contact_createdAt b \<le> contact_createdAt a) cs"
    by blast
  from cs(1) ev have "cs = sort_desc contact_createdAt (contacts busy)"
    by simp
  with msgs have m: "map contact_message cs = [''third'', ''second'', ''first'']"
    by simp
  have ex: "\<exists>cs. admin_contacts sample_config sample_env (ann_request Undefined) busy =
            (\<lparr>status = 200, json = Contacts cs\<rparr>, busy)
      \<and> map contact_message cs = [''third'', ''second'', ''first'']
      \<and> mset cs = mset (contacts busy)
      \<and> sorted_wrt (\<lambda>a b. contact_createdAt b \<le> contact_createdAt a) cs"
    by (rule exI [of _ cs]) (intro conjI cs m)
  show ?thesis
    by (intro conjI ann_authenticated orig ex)
qed

subsection \<open>Recording a mood\<close>

lemma mood_save_missing:
  "mood = Undefined \<or> mood = Str [] \<Longrightarrow> mood_save M uid mood ts d = Inl ValidationError"
  by (auto simp: mood_save_def cast_String_def)

text \<open>
  Claim C10.  For an authenticated request to record a mood whose body has no mood, or an
  empty one, the handler itself checks nothing: the save is refused by the schema's
  \<open>required\<close> validator, the answer is 500 with the handler's failure message (not 400),
  and no selection is appended.
\<close>

theorem mood_select_missing_mood:
  "authenticateToken c (now_jwt e) req = Next u \<and>
   (body_mood (body req) = Undefined \<or> body_mood (body req) = Str []) \<longrightarrow>
     mood_save (mongoose c) (claim_id u) (body_mood (body req)) (now_doc e) d = Inl ValidationError
   \<and> mood_select c e req d = (\<lparr>status = 500, json = Message False ''Failed to track mood''\<rparr>, d)"
proof (intro impI, elim conjE)
  assume auth: "authenticateToken c (now_jwt e) req = Next u"
    and missing: "body_mood (body req) = Undefined \<or> body_mood (body req) = Str []"
  have sv: "mood_save (mongoose c) (claim_id u) (body_mood (body req)) (now_doc e) d =
      Inl ValidationError"
    using missing by (rule mood_save_missing)
  then have "mood_select c e req d =
      (\<lparr>status = 500, json = Message False ''Failed to track mood''\<rparr>, d)"
    by (simp add: mood_select_def protected_next [OF auth] Let_def)
  with sv show "mood_save (mongoose c) (claim_id u) (body_mood (body req)) (now_doc e) d =
      Inl ValidationError
   \<and> mood_select c e req d = (\<lparr>status = 500, json = Message False ''Failed to track mood''\<rparr>, d)"
    by simp
qed

theorem mood_select_missing_mood_witness:
  "authenticateToken sample_config (now_jwt sample_env) (ann_request Undefined) = Next ann_claims
   \<and> authenticateToken sample_config (now_jwt sample_env) (ann_request (Str [])) = Next ann_claims
   \<and> mood_select sample_config sample_env (ann_request Undefined) busy =
       (\<lparr>status = 500, json = Message False ''Failed to track mood''\<rparr>, busy)
   \<and> mood_select sample_config sample_env (ann_request (Str [])) busy =
       (\<lparr>status = 500, json = Message False ''Failed to track mood''\<rparr>, busy)"
  using
    mood_select_missing_mood [where c = sample_config and e = sample_env
      and req = "ann_request Undefined" and u = ann_claims and d = busy]
    mood_select_missing_mood [where c = sample_config and e = sample_env
      and req = "ann_request (Str [])" and u = ann_claims and d = busy]
    ann_authenticated [of Undefined] ann_authenticated [of "Str []"]
  by (simp add: ann_request_def)

subsection \<open>Where the password goes\<close>

lemma user_save_appends: "user_save u d = Inr d' \<Longrightarrow> d' = d\<lparr>users := users d @ [u]\<rparr>"
  by (auto simp: user_save_def split: if_splits)

lemma signup_stores:
  assumes "signup c e req d = (r, d')"
    and "d' \<noteq> d \<or> status r = 201 \<or> (\<exists>m tok v. json r = Session m tok v)"
  shows "\<exists>pw u. body_password (body req) = Str pw
    \<and> new_User (mongoose c) e (body_name (body req)) (body_email (body req))
           (bcrypt_hash (bcrypt c) pw 10 (salt e)) = Some u
    \<and> r = \<lparr>status = 201,
              json = Session (''Account created successfully! '' @ party)
                       (issueToken c (now_jwt e) u) (view_of u)\<rparr>
    \<and> d' = d\<lparr>users := users d @ [u]\<rparr>"
proof -
  let ?name = "body_name (body req)" and ?email = "body_email (body req)"
    and ?password = "body_password (body req)"
  have guard: "js_truthy ?name \<and> js_truthy ?email \<and> js_truthy ?password"
    using assms by (auto simp: signup_def Let_def split: if_splits)
  have found: "User_findOne (mongoose c) ?email (users d) = Inr None"
    using assms guard
    by (cases "User_findOne (mongoose c) ?email (users d)")
       (auto simp: signup_def Let_def split: option.splits)
  obtain h where h: "bcrypt_hash_value (bcrypt c) ?password 10 (salt e) = Inr h"
    using assms guard found
    by (cases "bcrypt_hash_value (bcrypt c) ?password 10 (salt e)")
       (auto simp: signup_def Let_def)
  then obtain pw where pw: "?password = Str pw" "h = bcrypt_hash (bcrypt c) pw 10 (salt e)"
    by (cases ?password) (auto simp: bcrypt_hash_value_def)
  obtain u where u: "new_User (mongoose c) e ?name ?email h = Some u"
    using assms guard found h
    by (cases "new_User (mongoose c) e ?name ?email h") (auto simp: signup_def Let_def)
  obtain d2 where sv: "user_save u d = Inr d2"
    using assms guard found h u
    by (cases "user_save u d") (auto simp: signup_def Let_def)
  have "signup c e req d =
      (\<lparr>status = 201,
        json = Session (''Account created successfully! '' @ party)
                 (issueToken c (now_jwt e) u) (view_of u)\<rparr>, d2)"
    using guard found h u sv by (simp add: signup_def Let_def)
  with assms(1) user_save_appends [OF sv] pw u show ?thesis
    by simp
qed


lemma signup_store:
  "snd (signup c e req d) = d \<or>
   (\<exists>n em pw. body_password (body req) = Str pw \<and>
      cast_String (mongoose c) (body_name (body req)) = Some n \<and>
      cast_String (mongoose c) (body_email (body req)) = Some em \<and>
      snd (signup c e req d) =
        d\<lparr>users := users d @
           [\<lparr>user_id = fresh_id e, user_name = n, user_email = em,
             user_password = bcrypt_hash (bcrypt c) pw 10 (salt e),
             user_createdAt = now_doc e\<rparr>]\<rparr>)"
proof (cases "snd (signup c e req d) = d")
  case True
  then show ?thesis by simp
next
  case False
  obtain r d' where res: "signup c e req d = (r, d')"
    by (cases "signup c e req d")
  with False have "d' \<noteq> d" by simp
  with signup_stores [OF res] obtain pw u where pw: "body_password (body req) = Str pw"
    and u: "new_User (mongoose c) e (body_name (body req)) (body_email (body req))
           (bcrypt_hash (bcrypt c) pw 10 (salt e)) = Some u"
    and d': "d' = d\<lparr>users := users d @ [u]\<rparr>"
    by blast
  from u obtain n em where "cast_String (mongoose c) (body_name (body req)) = Some n"
    "cast_String (mongoose c) (body_email (body req)) = Some em"
    "u = \<lparr>user_id = fresh_id e, user_name = n, user_email = em,
          user_password = bcrypt_hash (bcrypt c) pw 10 (salt e), user_createdAt = now_doc e\<rparr>"
    by (auto simp: new_User_def split: option.splits)
  with pw d' res show ?thesis
    by simp
qed

lemma login_store: "snd (login c e req d) = d"
  by (simp add: login_def Let_def split: sum.splits option.splits)

lemma signup_user_object:
  assumes "json (fst (signup c e req d)) = Session m tok v"
  shows "\<exists>u\<in>set (users (snd (signup c e req d))).
           v = \<lparr>view_id = user_id u, view_name = user_name u, view_email = user_email u\<rparr>"
proof -
  obtain r d' where res: "signup c e req d = (r, d')"
    by (cases "signup c e req d")
  with assms have "\<exists>m tok v. json r = Session m tok v" by simp
  with signup_stores [OF res] obtain u where "r = \<lparr>status = 201,
              json = Session (''Account created successfully! '' @ party)
                       (issueToken c (now_jwt e) u) (view_of u)\<rparr>"
    and "d' = d\<lparr>users := users d @ [u]\<rparr>"
    by blast
  with res assms show ?thesis
    by (simp add: view_of_def)
qed

lemma new_User_password_free:
  "new_User M e name email h = Some u \<Longrightarrow>
   new_User M e name email h' = Some (u\<lparr>user_password := h'\<rparr>)"
  by (auto simp: new_User_def split: option.splits)

lemma new_User_None: "new_User M e name email h = None \<Longrightarrow> new_User M e name email h' = None"
  by (auto simp: new_User_def split: option.splits)

lemma user_save_password_free:
  assumes "user_password u \<noteq> []" "h \<noteq> []"
  shows "(case user_save (u\<lparr>user_password := h\<rparr>) d of Inl x \<Rightarrow> True | Inr y \<Rightarrow> False) =
         (case user_save u d of Inl x \<Rightarrow> True | Inr y \<Rightarrow> False)"
  using assms by (simp add: user_save_def)

lemma signup_response_password_free:
  assumes name: "body_name (body req') = body_name (body req)"
    and email: "body_email (body req') = body_email (body req)"
    and pw: "body_password (body req) = Str pw" "pw \<noteq> []"
    and pw': "body_password (body req') = Str pw'" "pw' \<noteq> []"
  shows "fst (signup c e req' d) = fst (signup c e req d)"
proof -
  let ?h = "bcrypt_hash (bcrypt c) pw 10 (salt e)" and ?h' = "bcrypt_hash (bcrypt c) pw' 10 (salt e)"
  have hv: "bcrypt_hash_value (bcrypt c) (Str pw) 10 (salt e) = Inr ?h"
    "bcrypt_hash_value (bcrypt c) (Str pw') 10 (salt e) = Inr ?h'"
    by (simp_all add: bcrypt_hash_value_def)
  have ne: "?h \<noteq> []" "?h' \<noteq> []"
    by (simp_all add: bcrypt_hash_def)
  show ?thesis
  proof (cases "new_User (mongoose c) e (body_name (body req)) (body_email (body req)) ?h")
    case None
    from new_User_None [OF None, of ?h'] None show ?thesis
      using name email pw pw' hv
      by (simp add: signup_def Let_def split: sum.splits option.splits)
  next
    case (Some u)
    note u' = new_User_password_free [OF Some, of ?h']
    have pwu: "user_password u = ?h"
      using Some by (auto simp: new_User_def split: option.splits)
    have tok: "issueToken c (now_jwt e) (u\<lparr>user_password := ?h'\<rparr>) = issueToken c (now_jwt e) u"
      "view_of (u\<lparr>user_password := ?h'\<rparr>) = view_of u"
      by (simp_all add: issueToken_def view_of_def)
    have sv: "(case user_save (u\<lparr>user_password := ?h'\<rparr>) d of Inl x \<Rightarrow> True | Inr y \<Rightarrow> False) =
         (case user_save u d of Inl x \<Rightarrow> True | Inr y \<Rightarrow> False)"
      using pwu ne by (intro user_save_password_free) simp_all
    show ?thesis
      using name email pw pw' hv Some u' tok sv
      by (cases "user_save u d"; cases "user_save (u\<lparr>user_password := ?h'\<rparr>) d")
         (simp_all add: signup_def Let_def split: sum.splits option.splits)
  qed
qed

lemma login_response_password_free:
  assumes "body_email (body req') = body_email (body req)"
    and "body_password (body req) = Str pw" "pw \<noteq> []"
    and "body_password (body req') = Str pw'" "pw' \<noteq> []"
    and "\<forall>u. User_findOne (mongoose c) (body_email (body req)) (users d) = Inr (Some u) \<longrightarrow>
           compare (bcrypt c) pw' (user_password u) = compare (bcrypt c) pw (user_password u)"
  shows "fst (login c e req' d) = fst (login c e req d)"
  using assms
  by (simp add: login_def Let_def bcrypt_compare_value_def split: sum.splits option.splits)

lemma User_findOne_stored:
  "User_findOne M v us = Inr (Some u) \<Longrightarrow> u \<in> set us"
  by (cases v) (auto simp: User_findOne_def findOne_email_def find_Some_iff split: option.splits)

lemma login_user_object:
  assumes "json (fst (login c e req d)) = Session m tok v"
  shows "\<exists>u\<in>set (users d).
           v = \<lparr>view_id = user_id u, view_name = user_name u, view_email = user_email u\<rparr>"
proof -
  from assms obtain u where "User_findOne (mongoose c) (body_email (body req)) (users d) = Inr (Some u)"
    and "v = view_of u"
    by (auto simp: login_def Let_def split: if_splits sum.splits option.splits)
  then show ?thesis
    using User_findOne_stored by (auto simp: view_of_def)
qed

text \<open>
  Claim C8.  A signup leaves the store as it was or appends exactly one user, whose
  password field is the bcrypt hash of the request's password; a login never writes to the
  store.  The response to a signup does not depend on the password that was supplied, and
  the response to a login depends on it only through the result of the comparison with
  the stored hash.  The user object of a session response is made of the id, the name and
  the email of a stored user, and of nothing else.
\<close>

theorem password_only_hashed:
  "(snd (signup c e req d) = d \<or>
    (\<exists>n em pw. body_password (body req) = Str pw \<and>
       cast_String (mongoose c) (body_name (body req)) = Some n \<and>
       cast_String (mongoose c) (body_email (body req)) = Some em \<and>
       snd (signup c e req d) =
         d\<lparr>users := users d @
            [\<lparr>user_id = fresh_id e, user_name = n, user_email = em,
              user_password = bcrypt_hash (bcrypt c) pw 10 (salt e),
              user_createdAt = now_doc e\<rparr>]\<rparr>))
   \<and> snd (login c e req d) = d
   \<and> (\<forall>req' pw pw'. body_name (body req') = body_name (body req) \<and>
          body_email (body req') = body_email (body req) \<and>
          body_password (body req) = Str pw \<and> pw \<noteq> [] \<and>
          body_password (body req') = Str pw' \<and> pw' \<noteq> [] \<longrightarrow>
          fst (signup c e req' d) = fst (signup c e req d))
   \<and> (\<forall>req' pw pw'. body_email (body req') = body_email (body req) \<and>
          body_password (body req) = Str pw \<and> pw \<noteq> [] \<and>
          body_password (body req') = Str pw' \<and> pw' \<noteq> [] \<and>
          (\<forall>u. User_findOne (mongoose c) (body_email (body req)) (users d) = Inr (Some u) \<longrightarrow>
             compare (bcrypt c) pw' (user_password u) = compare (bcrypt c) pw (user_password u)) \<longrightarrow>
          fst (login c e req' d) = fst (login c e req d))
   \<and> (\<forall>m tok v. json (fst (signup c e req d)) = Session m tok v \<longrightarrow>
          (\<exists>u\<in>set (users (snd (signup c e req d))).
             v = \<lparr>view_id = user_id u, view_name = user_name u, view_email = user_email u\<rparr>))
   \<and> (\<forall>m tok v. json (fst (login c e req d)) = Session m tok v \<longrightarrow>
          (\<exists>u\<in>set (users d).
             v = \<lparr>view_id = user_id u, view_name = user_name u, view_email = user_email u\<rparr>))"
proof (intro conjI allI impI)
  show "snd (signup c e req d) = d \<or>
    (\<exists>n em pw. body_password (body req) = Str pw \<and>
       cast_String (mongoose c) (body_name (body req)) = Some n \<and>
       cast_String (mongoose c) (body_email (body req)) = Some em \<and>
       snd (signup c e req d) =
         d\<lparr>users := users d @
            [\<lparr>user_id = fresh_id e, user_name = n, user_email = em,
              user_password = bcrypt_hash (bcrypt c) pw 10 (salt e),
              user_createdAt = now_doc e\<rparr>]\<rparr>)"
    by (rule signup_store)
next
  show "snd (login c e req d) = d"
    by (rule login_store)
next
  fix req' :: request and pw pw'
  assume "body_name (body req') = body_name (body req) \<and>
          body_email (body req') = body_email (body req) \<and>
          body_password (body req) = Str pw \<and> pw \<noteq> [] \<and>
          body_password (body req') = Str pw' \<and> pw' \<noteq> []"
  then show "fst (signup c e req' d) = fst (signup c e req d)"
    by (intro signup_response_password_free [where pw = pw and pw' = pw']) simp_all
next
  fix req' :: request and pw pw'
  assume "body_email (body req') = body_email (body req) \<and>
          body_password (body req) = Str pw \<and> pw \<noteq> [] \<and>
          body_password (body req') = Str pw' \<and> pw' \<noteq> [] \<and>
          (\<forall>u. User_findOne (mongoose c) (body_email (body req)) (users d) = Inr (Some u) \<longrightarrow>
             compare (bcrypt c) pw' (user_password u) = compare (bcrypt c) pw (user_password u))"
  then show "fst (login c e req' d) = fst (login c e req d)"
    by (intro login_response_password_free [where pw = pw and pw' = pw']) simp_all
next
  fix m tok v
  assume "json (fst (signup c e req d)) = Session m tok v"
  then show "\<exists>u\<in>set (users (snd (signup c e req d))).
             v = \<lparr>view_id = user_id u, view_name = user_name u, view_email = user_email u\<rparr>"
    by (rule signup_user_object)
next
  fix m tok v
  assume "json (fst (login c e req d)) = Session m tok v"
  then show "\<exists>u\<in>set (users d).
             v = \<lparr>view_id = user_id u, view_name = user_name u, view_email = user_email u\<rparr>"
    by (rule login_user_object)
qed

lemma ann_signs_up:
  "signup sample_config sample_env (form (Str ''Ann'') (Str ''ann@x.com'') (Str ''secret1'')) no_users =
     (\<lparr>status = 201,
       json = Session (''Account created successfully! '' @ party) ann_token
                \<lparr>view_id = 1, view_name = ''Ann'', view_email = ''ann@x.com''\<rparr>\<rparr>,
      ann_only)"
  using signup_created [where req = "form (Str ''Ann'') (Str ''ann@x.com'') (Str ''secret1'')"
      and n = "''Ann''" and em = "''ann@x.com''" and pw = "''secret1''" and d = no_users
      and c = sample_config and e = sample_env]
  by (simp add: sample_defs truthy_def str_def bcrypt_hash_def issueToken_def
      jwt_sign_def jwt_signed_def jwt_claims_def JWT_SECRET_def seven_days_def view_of_def Let_def)

lemma ann_logs_in:
  "login sample_config sample_env (form Undefined (Str ''ann@x.com'') (Str ''secret1'')) ann_only =
     (\<lparr>status = 200,
       json = Session (''Welcome back! '' @ party) ann_token
                \<lparr>view_id = 1, view_name = ''Ann'', view_email = ''ann@x.com''\<rparr>\<rparr>,
      ann_only)"
  by (simp add: login_def Let_def User_findOne_Str ann_lookup form_def bcrypt_compare_value_def)
     (simp add: sample_defs issueToken_def
      jwt_sign_def jwt_signed_def jwt_claims_def JWT_SECRET_def seven_days_def view_of_def
      truthy_def str_def Let_def)

theorem password_only_hashed_witness:
  "user_password ann = bcrypt_hash (bcrypt sample_config) ''secret1'' 10 (salt sample_env)
   \<and> snd (signup sample_config sample_env
             (form (Str ''Ann'') (Str ''ann@x.com'') (Str ''secret1'')) no_users) = ann_only
   \<and> fst (signup sample_config sample_env
             (form (Str ''Ann'') (Str ''ann@x.com'') (Str ''other'')) no_users) =
       fst (signup sample_config sample_env
             (form (Str ''Ann'') (Str ''ann@x.com'') (Str ''secret1'')) no_users)
   \<and> fst (login sample_config sample_env
             (form Undefined (Str ''ann@x.com'') (Str ''guess'')) ann_only) =
       fst (login sample_config sample_env
             (form Undefined (Str ''ann@x.com'') (Str ''wrong'')) ann_only)
   \<and> (\<exists>u\<in>set (users ann_only).
         \<lparr>view_id = 1, view_name = ''Ann'', view_email = ''ann@x.com''\<rparr> =
         \<lparr>view_id = user_id u, view_name = user_name u, view_email = user_email u\<rparr>)"
proof -
  let ?su = "form (Str ''Ann'') (Str ''ann@x.com'') (Str ''secret1'')"
  let ?wrong = "form Undefined (Str ''ann@x.com'') (Str ''wrong'')"
  let ?ok = "form Undefined (Str ''ann@x.com'') (Str ''secret1'')"
  note su = password_only_hashed [where c = sample_config and e = sample_env and req = ?su
      and d = no_users]
  note wr = password_only_hashed [where c = sample_config and e = sample_env and req = ?wrong
      and d = ann_only]
  note ok = password_only_hashed [where c = sample_config and e = sample_env and req = ?ok
      and d = ann_only]
  have h: "user_password ann = bcrypt_hash (bcrypt sample_config) ''secret1'' 10 (salt sample_env)"
    by (simp add: sample_defs bcrypt_hash_def)
  have st: "snd (signup sample_config sample_env ?su no_users) = ann_only"
    by (simp add: ann_signs_up)
  have ni1: "fst (signup sample_config sample_env
             (form (Str ''Ann'') (Str ''ann@x.com'') (Str ''other'')) no_users) =
       fst (signup sample_config sample_env ?su no_users)"
    using su [THEN conjunct2, THEN conjunct2, THEN conjunct1, THEN spec, THEN spec, THEN spec,
        of "form (Str ''Ann'') (Str ''ann@x.com'') (Str ''other'')" "''secret1''" "''other''"]
    by (simp add: form_def)
  have guess: "\<not> compare (bcrypt sample_config) ''guess'' (user_password ann)"
    by (simp add: sample_defs)
  have ni2: "fst (login sample_config sample_env
             (form Undefined (Str ''ann@x.com'') (Str ''guess'')) ann_only) =
       fst (login sample_config sample_env ?wrong ann_only)"
    using wr [THEN conjunct2, THEN conjunct2, THEN conjunct2, THEN conjunct1,
        THEN spec, THEN spec, THEN spec,
        of "form Undefined (Str ''ann@x.com'') (Str ''guess'')" "''wrong''" "''guess''"]
      ann_lookup ann_wrong_password guess
    by (simp add: form_def User_findOne_Str)
  have obj: "\<exists>u\<in>set (users ann_only).
         \<lparr>view_id = 1, view_name = ''Ann'', view_email = ''ann@x.com''\<rparr> =
         \<lparr>view_id = user_id u, view_name = user_name u, view_email = user_email u\<rparr>"
    using ok [THEN conjunct2, THEN conjunct2, THEN conjunct2, THEN conjunct2, THEN conjunct2,
        THEN spec, THEN spec, THEN spec, of "''Welcome back! '' @ party" ann_token
        "\<lparr>view_id = 1, view_name = ''Ann'', view_email = ''ann@x.com''\<rparr>"]
    by (simp add: ann_logs_in)
  show ?thesis
    by (intro conjI h st ni1 ni2 obj)
qed


end
